theory Spec2Isabelle
  imports Main "HOL-Library.AList"
begin

section \<open>JavaScript values and built-ins\<close>

text \<open>
  The Lambda handlers of the repository work on JSON documents. A JSON value is the
  datatype \<open>json\<close>; an object keeps its members as an association list in
  document order, and a member is looked up with \<open>map_of\<close>. JavaScript's
  \<open>undefined\<close> is the \<open>None\<close> of \<open>json option\<close>. Numbers are
  mathematical integers (epoch milliseconds are), a string is a list of 8-bit code
  units. No JSON value is a function, so no member of a parsed document can be
  called.
\<close>

datatype json =
    JNull
  | JBool bool
  | JNum int
  | JStr string
  | JArr "json list"
  | JObj "(string \<times> json) list"

datatype js_error =
    SyntaxError
  | TypeError
  | Error string
  | SdkError string

text \<open>
  Built-ins of the Node.js runtime that the handlers call and that are not code of the
  repository: \<open>JSON.parse\<close> (\<open>None\<close> when it throws a SyntaxError),
  \<open>JSON.stringify\<close>, \<open>parseInt\<close> and \<open>new Date(s).getTime()\<close>
  (\<open>None\<close> for NaN), \<open>Date.prototype.toISOString\<close>,
  \<open>String.prototype.toLowerCase\<close>, the text of an error's \<open>message\<close>,
  and the exponent notation in which a number of magnitude \<open>10\<^sup>2\<^sup>1\<close> or
  more is printed.
\<close>

record builtins =
  JSON_parse :: "string \<Rightarrow> json option"
  JSON_stringify :: "json \<Rightarrow> string"
  parseInt :: "string \<Rightarrow> int option"
  Date_getTime :: "string \<Rightarrow> int option"
  toISOString :: "int \<Rightarrow> string"
  toLowerCase :: "string \<Rightarrow> string"
  error_message :: "js_error \<Rightarrow> string"
  Number_toString :: "int \<Rightarrow> string"

text \<open>The environment variables a handler reads from \<open>process.env\<close>.\<close>

record config =
  DYNAMODB_TABLE_NAME :: string
  SNS_TOPIC_ARN :: string
  BEDROCK_MODEL_ID :: string
  NODE_ENV :: string

text \<open>Truthiness: what \<open>!x\<close>, \<open>x || y\<close> and \<open>if (x)\<close> test.\<close>

fun truthy :: "json \<Rightarrow> bool" where
  "truthy JNull = False"
| "truthy (JBool b) = b"
| "truthy (JNum n) = (n \<noteq> 0)"
| "truthy (JStr s) = (s \<noteq> [])"
| "truthy (JArr xs) = True"
| "truthy (JObj kvs) = True"

fun truthy_opt :: "json option \<Rightarrow> bool" where
  "truthy_opt None = False"
| "truthy_opt (Some v) = truthy v"

text \<open>\<open>x || d\<close> for a possibly undefined \<open>x\<close>.\<close>

definition or_else :: "json option \<Rightarrow> json \<Rightarrow> json" where
  "or_else x d = (case x of None \<Rightarrow> d | Some v \<Rightarrow> if truthy v then v else d)"

text \<open>
  Reading a named member \<open>v.k\<close> of a value that is not \<open>null\<close> (on
  \<open>null\<close> the read throws a TypeError, which every caller below tests first):
  on an object it is the member or \<open>undefined\<close>; numbers, booleans, strings
  and arrays have none of the member names the handlers read.
\<close>

fun get_member :: "json \<Rightarrow> string \<Rightarrow> json option" where
  "get_member (JObj kvs) k = map_of kvs k"
| "get_member v k = None"

fun isArray :: "json \<Rightarrow> bool" where
  "isArray (JArr xs) = True"
| "isArray v = False"

text \<open>Whether a computation ended with an exception.\<close>

fun raises :: "js_error + 'a \<Rightarrow> bool" where
  "raises (Inl e) = True"
| "raises (Inr v) = False"

text \<open>
  \<open>String.prototype.trim\<close>: the white space of the code units below 256 is tab,
  line feed, vertical tab, form feed, carriage return, space and no-break space.
\<close>

definition is_space :: "char \<Rightarrow> bool" where
  "is_space c = (c \<in> set [CHR 0x09, CHR 0x0A, CHR 0x0B, CHR 0x0C, CHR 0x0D, CHR 0x20, CHR 0xA0])"

definition trim :: "string \<Rightarrow> string" where
  "trim s = rev (dropWhile is_space (rev (dropWhile is_space s)))"

text \<open>
  Decimal digits of a number, as \<open>String(n)\<close> prints an integer of magnitude
  below \<open>10\<^sup>2\<^sup>1\<close> (every reading of the clock is one).
\<close>

fun show_nat :: "nat \<Rightarrow> string" where
  "show_nat n = (if n < 10 then [''0123456789'' ! n]
                 else show_nat (n div 10) @ [''0123456789'' ! (n mod 10)])"

declare show_nat.simps [simp del]

definition show_int :: "int \<Rightarrow> string" where
  "show_int i = (if i < 0 then CHR ''-'' # show_nat (nat (- i)) else show_nat (nat i))"

text \<open>
  \<open>String(v)\<close> and template interpolation. A string is itself; an integer prints
  its digits below \<open>10\<^sup>2\<^sup>1\<close> and in exponent notation from there on; an array
  joins the conversions of its elements with commas (\<open>null\<close> elements print
  as nothing) and throws what the first failing element throws; an object prints as
  \<open>[object Object]\<close> through the inherited \<open>toString\<close>, unless it has a
  member \<open>toString\<close> of its own: that member is no function, the inherited
  \<open>valueOf\<close> returns the object, and the conversion throws a TypeError.
\<close>

fun join_with :: "string \<Rightarrow> string list \<Rightarrow> string" where
  "join_with sep [] = []"
| "join_with sep [x] = x"
| "join_with sep (x # y # ys) = x @ sep @ join_with sep (y # ys)"

fun first_error :: "(js_error + 'a) list \<Rightarrow> js_error + 'a list" where
  "first_error [] = Inr []"
| "first_error (x # xs) =
     (case x of
        Inl e \<Rightarrow> Inl e
      | Inr v \<Rightarrow> (case first_error xs of Inl e \<Rightarrow> Inl e | Inr vs \<Rightarrow> Inr (v # vs)))"

fun to_String :: "builtins \<Rightarrow> json \<Rightarrow> js_error + string" where
  "to_String B JNull = Inr ''null''"
| "to_String B (JBool b) = Inr (if b then ''true'' else ''false'')"
| "to_String B (JNum n) =
     Inr (if \<bar>n\<bar> < 1000000000000000000000 then show_int n else Number_toString B n)"
| "to_String B (JStr s) = Inr s"
| "to_String B (JArr xs) =
     (case first_error (map (\<lambda>x. if x = JNull then Inr [] else to_String B x) xs) of
        Inl e \<Rightarrow> Inl e
      | Inr parts \<Rightarrow> Inr (join_with '','' parts))"
| "to_String B (JObj kvs) =
     (if ''toString'' \<in> fst ` set kvs then Inl TypeError else Inr ''[object Object]'')"

text \<open>
  \<open>String.prototype.split\<close> at one separator character,
  \<open>String.prototype.includes\<close>, and the global replacement of a fixed text
  followed by an optional line feed by nothing (the regular expressions
  \<open>/```json\n?/g\<close> and \<open>/```\n?/g\<close>).
\<close>

fun split_on :: "char \<Rightarrow> string \<Rightarrow> string list" where
  "split_on c [] = [[]]"
| "split_on c (x # xs) =
     (if x = c then [] # split_on c xs
      else (case split_on c xs of [] \<Rightarrow> [[x]] | y # ys \<Rightarrow> (x # y) # ys))"

fun js_includes :: "string \<Rightarrow> string \<Rightarrow> bool" where
  "js_includes [] needle = (needle = [])"
| "js_includes (h # hs) needle = (take (length needle) (h # hs) = needle \<or> js_includes hs needle)"

definition drop_newline :: "string \<Rightarrow> string" where
  "drop_newline s = (case s of [] \<Rightarrow> [] | c # cs \<Rightarrow> if c = CHR 0x0A then cs else c # cs)"

function strip_all :: "string \<Rightarrow> string \<Rightarrow> string" where
  "strip_all pat [] = []"
| "strip_all pat (c # cs) =
     (if pat \<noteq> [] \<and> take (length pat) (c # cs) = pat
      then strip_all pat (drop_newline (drop (length pat) (c # cs)))
      else c # strip_all pat cs)"
  by pat_completeness auto
termination
proof (relation "measure (\<lambda>(pat, s). length s)")
  show "wf (measure (\<lambda>(pat, s). length s))" by simp
next
  fix pat :: string and c :: char and cs :: string
  assume "pat \<noteq> [] \<and> take (length pat) (c # cs) = pat"
  then have "0 < length pat" by simp
  moreover have "length (drop_newline t) \<le> length t" for t
    by (cases t) (simp_all add: drop_newline_def)
  ultimately have "length (drop_newline (drop (length pat) (c # cs))) < length (c # cs)"
    by (metis diff_less le_less_trans length_drop length_greater_0_conv list.distinct(1))
  then show "((pat, drop_newline (drop (length pat) (c # cs))), (pat, c # cs))
             \<in> measure (\<lambda>(pat, s). length s)"
    by simp
next
  fix pat :: string and c :: char and cs :: string
  show "((pat, cs), (pat, c # cs)) \<in> measure (\<lambda>(pat, s). length s)" by simp
qed

section \<open>The outside world\<close>

text \<open>
  A handler runs against the clock and three AWS services. Their behaviour is not
  code of the repository, so it is scripted in the state: \<open>clock\<close> is the stream
  of the readings that successive \<open>Date.now()\<close> / \<open>new Date()\<close> calls return,
  \<open>sns_replies\<close> and \<open>bedrock_replies\<close> are the streams of the answers of
  successive SNS and Bedrock calls, and \<open>ddb_faults\<close> schedules the failures
  of the next DynamoDB calls that the embedding does not derive from the command:
  throttling and outages, and the limits of the store on sizes and depth, which the
  embedding does not measure (an item above 400 KB, a key above 2048 bytes, values
  nested deeper than 32 levels). \<open>Some msg\<close> is a call that throws; once the
  schedule is used up a call fails only when the document client or the store
  rejects the command for its types and shape. \<open>published\<close> are the messages the topic
  accepted, \<open>invoked\<close> the model invocations (model id and the feedback
  interpolated into the prompt), \<open>ddb_log\<close> the commands sent to DynamoDB,
  each oldest first.

  The table has the key schema of \<open>DynamoDBConstruct.js\<close>: partition key
  \<open>userId\<close> (a string) and sort key \<open>timestamp\<close> (a number), and the
  global secondary index \<open>FeedbackTypeIndex\<close> with partition key
  \<open>feedbackType\<close> (a string) and sort key \<open>timestamp\<close>. A row is its
  table key and its other attributes; \<open>item_of\<close> is the item a read returns.
  The operations keep at most one row under a key; where a table has several, a read
  by key takes the first.

  A Query reads one page: the leading rows of the partition, in the order of the
  scan, that fit into 1 MB of data. How many rows that are depends on their sizes,
  which the embedding does not measure; \<open>page_rows\<close> is that number, as a
  function of the rows the scan meets.
\<close>

type_synonym item = "(string \<times> json) list"

type_synonym row = "(string \<times> int) \<times> item"

datatype cond =
    Ge string json
  | Le string json
  | Eq string json
  | ContainsAny string "json list"

datatype ddb_command =
    PutCommand item
  | GetCommand "json \<times> json"
  | UpdateCommand "json \<times> json" "(string \<times> json) list"
  | QueryCommand string "(string \<times> string) list option" "cond list" bool "string list option"
  | BatchWriteCommand "(json option \<times> json option) list"

record publish_command =
  TopicArn :: string
  Message :: string
  Subject :: string
  attr_userId :: string
  attr_timestamp :: string

datatype invoke_reply = InvokeFailed string | InvokeBody string

record world =
  clock :: "nat \<Rightarrow> int"
  sns_replies :: "nat \<Rightarrow> string + string"
  published :: "publish_command list"
  bedrock_replies :: "nat \<Rightarrow> invoke_reply"
  invoked :: "(string \<times> string) list"
  ddb_faults :: "string option list"
  ddb_log :: "ddb_command list"
  page_rows :: "row list \<Rightarrow> nat"
  table :: "row list"

definition Date_now :: "world \<Rightarrow> int \<times> world" where
  "Date_now w = (clock w 0, w\<lparr>clock := (\<lambda>n. clock w (Suc n))\<rparr>)"

text \<open>
  \<open>snsClient.send(new PublishCommand(params))\<close>: the topic answers with an error
  (\<open>Inl\<close>, nothing is published) or accepts the message and assigns its
  \<open>MessageId\<close>.
\<close>

definition sns_send :: "publish_command \<Rightarrow> world \<Rightarrow> (js_error + string) \<times> world" where
  "sns_send cmd w =
     (let w' = w\<lparr>sns_replies := (\<lambda>n. sns_replies w (Suc n))\<rparr>
      in case sns_replies w 0 of
           Inl msg \<Rightarrow> (Inl (SdkError msg), w')
         | Inr mid \<Rightarrow> (Inr mid, w'\<lparr>published := published w @ [cmd]\<rparr>))"

text \<open>
  \<open>bedrockClient.send(new InvokeModelCommand(params))\<close> followed by the decoding
  of the response body: the call throws or yields the body's text.
\<close>

definition invoke_model :: "string \<Rightarrow> string \<Rightarrow> world \<Rightarrow> (js_error + string) \<times> world" where
  "invoke_model modelId feedback_text w =
     (let w' = w\<lparr>bedrock_replies := (\<lambda>n. bedrock_replies w (Suc n)),
                 invoked := invoked w @ [(modelId, feedback_text)]\<rparr>
      in case bedrock_replies w 0 of
           InvokeFailed msg \<Rightarrow> (Inl (SdkError msg), w')
         | InvokeBody txt \<Rightarrow> (Inr txt, w'))"

subsection \<open>DynamoDB\<close>

definition item_of :: "row \<Rightarrow> item" where
  "item_of r = (''userId'', JStr (fst (fst r))) # (''timestamp'', JNum (snd (fst r))) # snd r"

text \<open>
  The document client converts the values of a command before it sends it. The
  conversion of a number of a magnitude above \<open>2\<^sup>5\<^sup>3 - 1\<close>, anywhere in
  a value, throws an error, and the command is not sent.
\<close>

fun marshallable :: "json \<Rightarrow> bool" where
  "marshallable (JNum n) = (\<bar>n\<bar> \<le> 9007199254740991)"
| "marshallable (JArr xs) = (\<forall>x \<in> set xs. marshallable x)"
| "marshallable (JObj kvs) = (\<forall>(k, v) \<in> set kvs. marshallable v)"
| "marshallable v = True"

text \<open>
  A key as the store receives it is valid when its partition key is a string and its
  sort key a number, and the string can be a key value: it is not empty.
  \<open>key_ok\<close> says of an owner and a timestamp that they can be sent and are a
  valid key.
\<close>

definition key_text_ok :: "string \<Rightarrow> bool" where
  "key_text_ok s = (s \<noteq> [])"

definition key_ok :: "string \<Rightarrow> int \<Rightarrow> bool" where
  "key_ok u t = (key_text_ok u \<and> marshallable (JNum t))"

fun valid_key :: "json option \<times> json option \<Rightarrow> (string \<times> int) option" where
  "valid_key (Some (JStr u), Some (JNum t)) = (if key_text_ok u then Some (u, t) else None)"
| "valid_key k = None"

text \<open>Every call that is sent is logged and takes the next scheduled outcome.\<close>

definition ddb_call :: "ddb_command \<Rightarrow> world \<Rightarrow> string option \<times> world" where
  "ddb_call cmd w =
     (case ddb_faults w of
        [] \<Rightarrow> (None, w\<lparr>ddb_log := ddb_log w @ [cmd]\<rparr>)
      | f # fs \<Rightarrow> (f, w\<lparr>ddb_faults := fs, ddb_log := ddb_log w @ [cmd]\<rparr>))"

text \<open>
  \<open>docClient.send(command)\<close> for a command with the given values: the values
  are converted, then the command is sent.
\<close>

definition ddb_send :: "json list \<Rightarrow> ddb_command \<Rightarrow> world \<Rightarrow> js_error option \<times> world" where
  "ddb_send vals cmd w =
     (if \<exists>v \<in> set vals. \<not> marshallable v
      then (Some (Error ''Number is not a safe integer. Use BigInt.''), w)
      else (case ddb_call cmd w of
              (Some msg, w') \<Rightarrow> (Some (SdkError msg), w')
            | (None, w') \<Rightarrow> (None, w')))"

definition non_key :: "item \<Rightarrow> item" where
  "non_key it = filter (\<lambda>(a, v). a \<noteq> ''userId'' \<and> a \<noteq> ''timestamp'') it"

text \<open>
  An attribute that is the partition key of the index may be absent from an item
  (the item is then not indexed); where it is written it must be a string that the
  store takes as a key value, or the write is rejected.
\<close>

fun index_key_ok :: "json option \<Rightarrow> bool" where
  "index_key_ok None = True"
| "index_key_ok (Some (JStr s)) = key_text_ok s"
| "index_key_ok (Some v) = False"

text \<open>PutItem: the item replaces the one stored under its key, if any.\<close>

definition ddb_put :: "item \<Rightarrow> world \<Rightarrow> (js_error + unit) \<times> world" where
  "ddb_put it w =
     (case ddb_send (map snd it) (PutCommand it) w of
        (Some e, w') \<Rightarrow> (Inl e, w')
      | (None, w') \<Rightarrow>
          (case valid_key (map_of it ''userId'', map_of it ''timestamp'') of
             None \<Rightarrow> (Inl (SdkError ''ValidationException''), w')
           | Some k \<Rightarrow>
               if \<not> index_key_ok (map_of it ''feedbackType'')
               then (Inl (SdkError ''ValidationException''), w')
               else (Inr (), w'\<lparr>table := filter (\<lambda>r. fst r \<noteq> k) (table w')
                                            @ [(k, non_key it)]\<rparr>)))"

text \<open>GetItem: the item stored under the key, or nothing.\<close>

definition ddb_get :: "json \<times> json \<Rightarrow> world \<Rightarrow> (js_error + item option) \<times> world" where
  "ddb_get k w =
     (case ddb_send [fst k, snd k] (GetCommand k) w of
        (Some e, w') \<Rightarrow> (Inl e, w')
      | (None, w') \<Rightarrow>
          (case valid_key (Some (fst k), Some (snd k)) of
             None \<Rightarrow> (Inl (SdkError ''ValidationException''), w')
           | Some k' \<Rightarrow>
               (Inr (case map_of (table w') k' of
                       None \<Rightarrow> None
                     | Some attrs \<Rightarrow> Some (item_of (k', attrs))), w')))"

text \<open>
  UpdateItem with a \<open>SET\<close> expression and \<open>ReturnValues: ALL_NEW\<close>: the named
  attributes are assigned in the item stored under the key (an item with just the key
  is created first when there is none), and the whole new item is returned. An
  assignment to the key of the index is checked as in a put.
\<close>

definition apply_sets :: "(string \<times> json) list \<Rightarrow> item \<Rightarrow> item" where
  "apply_sets sets attrs = fold (\<lambda>(a, v). AList.update a v) sets attrs"

definition ddb_update ::
  "json \<times> json \<Rightarrow> (string \<times> json) list \<Rightarrow> world \<Rightarrow> (js_error + item) \<times> world" where
  "ddb_update k sets w =
     (case ddb_send ([fst k, snd k] @ map snd sets) (UpdateCommand k sets) w of
        (Some e, w') \<Rightarrow> (Inl e, w')
      | (None, w') \<Rightarrow>
          (case valid_key (Some (fst k), Some (snd k)) of
             None \<Rightarrow> (Inl (SdkError ''ValidationException''), w')
           | Some k' \<Rightarrow>
               if \<exists>(a, v) \<in> set sets. a = ''feedbackType'' \<and> \<not> index_key_ok (Some v)
               then (Inl (SdkError ''ValidationException''), w')
               else
               (case map_of (table w') k' of
                  None \<Rightarrow>
                    (Inr (item_of (k', apply_sets sets [])),
                     w'\<lparr>table := table w' @ [(k', apply_sets sets [])]\<rparr>)
                | Some attrs \<Rightarrow>
                    (Inr (item_of (k', apply_sets sets attrs)),
                     w'\<lparr>table := map (\<lambda>r. if fst r = k' then (k', apply_sets sets (snd r)) else r)
                                      (table w')\<rparr>))))"

text \<open>
  The conditions of a filter expression, each on one attribute, with DynamoDB's
  meaning: comparisons hold between numbers (the handlers compare nothing else),
  equality is equality of the attribute's value, \<open>ContainsAny a vs\<close> is the
  disjunction of \<open>contains(a, v)\<close> over the listed values, where
  \<open>contains\<close> is membership for a list attribute and substring for a string
  attribute, and a condition on a missing attribute is false.
\<close>

fun attribute :: "cond \<Rightarrow> string" where
  "attribute (Ge a v) = a"
| "attribute (Le a v) = a"
| "attribute (Eq a v) = a"
| "attribute (ContainsAny a vs) = a"

fun operands :: "cond \<Rightarrow> json list" where
  "operands (Ge a v) = [v]"
| "operands (Le a v) = [v]"
| "operands (Eq a v) = [v]"
| "operands (ContainsAny a vs) = vs"

definition contains :: "item \<Rightarrow> string \<Rightarrow> json \<Rightarrow> bool" where
  "contains it a v =
     (case map_of it a of
        Some (JArr xs) \<Rightarrow> v \<in> set xs
      | Some (JStr s) \<Rightarrow> (case v of JStr t \<Rightarrow> js_includes s t | _ \<Rightarrow> False)
      | _ \<Rightarrow> False)"

fun holds :: "item \<Rightarrow> cond \<Rightarrow> bool" where
  "holds it (Ge a v) =
     (case (map_of it a, v) of (Some (JNum x), JNum y) \<Rightarrow> y \<le> x | _ \<Rightarrow> False)"
| "holds it (Le a v) =
     (case (map_of it a, v) of (Some (JNum x), JNum y) \<Rightarrow> x \<le> y | _ \<Rightarrow> False)"
| "holds it (Eq a v) = (map_of it a = Some v)"
| "holds it (ContainsAny a vs) = (\<exists>v \<in> set vs. contains it a v)"

text \<open>
  Query on the partition of one owner, with the \<open>ExpressionAttributeNames\<close> of
  the command (placeholder and attribute), the conditions of its filter expression,
  the direction of the scan and its projection. The store rejects a partition key
  value that is no key value, a map of names that is given and empty, and a filter on
  an attribute of the table key. Otherwise it
  reads one page of the partition in sort-key order (descending when
  \<open>ScanIndexForward\<close> is false), keeps of it the items on which every condition
  holds, and projects them on the named attributes if a projection is given. The
  rows behind the page are announced by a \<open>LastEvaluatedKey\<close>, which no
  handler reads.
\<close>

definition project :: "string list \<Rightarrow> item \<Rightarrow> item" where
  "project names it = filter (\<lambda>(a, v). a \<in> set names) it"

definition first_page :: "string \<Rightarrow> bool \<Rightarrow> world \<Rightarrow> row list" where
  "first_page owner forward w =
     (let rows = sort_key (\<lambda>r. snd (fst r)) (filter (\<lambda>r. fst (fst r) = owner) (table w));
          ordered = (if forward then rows else rev rows)
      in take (page_rows w ordered) ordered)"

definition ddb_query ::
  "string \<Rightarrow> (string \<times> string) list option \<Rightarrow> cond list \<Rightarrow> bool \<Rightarrow> string list option \<Rightarrow>
   world \<Rightarrow> (js_error + item list) \<times> world" where
  "ddb_query owner names conds forward projection w =
     (case ddb_send (JStr owner # concat (map operands conds))
             (QueryCommand owner names conds forward projection) w of
        (Some e, w') \<Rightarrow> (Inl e, w')
      | (None, w') \<Rightarrow>
          if \<not> key_text_ok owner \<or> names = Some []
             \<or> (\<exists>c \<in> set conds. attribute c \<in> set [''userId'', ''timestamp''])
          then (Inl (SdkError ''ValidationException''), w')
          else
            (let matching = filter (\<lambda>it. \<forall>c \<in> set conds. holds it c)
                                   (map item_of (first_page owner forward w'))
             in (Inr (case projection of
                        None \<Rightarrow> matching
                      | Some names \<Rightarrow> map (project names) matching), w')))"

text \<open>
  BatchWriteItem with delete requests. The conversion of a key with an undefined
  component throws. The store takes at most 25 requests (and at least one) per
  call, each with a valid key; the rows under the keys are removed. (The store may
  also hand requests back unprocessed in its answer, which the handler does not
  read; here every request of an accepted call is processed.)
\<close>

definition ddb_batch_delete ::
  "(json option \<times> json option) list \<Rightarrow> world \<Rightarrow> (js_error + unit) \<times> world" where
  "ddb_batch_delete keys w =
     (if \<exists>k \<in> set keys. fst k = None \<or> snd k = None
      then (Inl (Error ''Pass options.removeUndefinedValues=true to remove undefined values''), w)
      else
        (case ddb_send (concat (map (\<lambda>k. [the (fst k), the (snd k)]) keys))
                (BatchWriteCommand keys) w of
           (Some e, w') \<Rightarrow> (Inl e, w')
         | (None, w') \<Rightarrow>
             if keys = [] \<or> 25 < length keys \<or> (\<exists>k \<in> set keys. valid_key k = None)
             then (Inl (SdkError ''ValidationException''), w')
             else (Inr (), w'\<lparr>table := filter (\<lambda>r. Some (fst r) \<notin> set (map valid_key keys))
                                           (table w')\<rparr>)))"

section \<open>HTTP events and responses\<close>

text \<open>
  The parts of an API Gateway event the handlers read: the \<open>sub\<close> claim of the
  Cognito authorizer (\<open>event.requestContext?.authorizer?.claims?.sub\<close>), the
  body, the \<open>timestamp\<close> path parameter and the query string parameters. A
  response is its status code and the document that is serialised into its body; a
  member whose value is \<open>undefined\<close> is left out, as \<open>JSON.stringify\<close> does.
\<close>

record api_event =
  sub :: "string option"
  body :: "string option"
  path_timestamp :: "string option"
  queryStringParameters :: "(string \<times> string) list option"

record response =
  statusCode :: nat
  payload :: json

definition error_response :: "nat \<Rightarrow> string \<Rightarrow> string \<Rightarrow> response" where
  "error_response code err msg =
     \<lparr>statusCode = code, payload = JObj [(''error'', JStr err), (''message'', JStr msg)]\<rparr>"

definition internal_error :: "builtins \<Rightarrow> config \<Rightarrow> string \<Rightarrow> js_error \<Rightarrow> response" where
  "internal_error B cfg msg e =
     \<lparr>statusCode = 500,
      payload = JObj ([(''error'', JStr ''Internal Server Error''), (''message'', JStr msg)] @
                      (if NODE_ENV cfg = ''development''
                       then [(''details'', JStr (error_message B e))] else []))\<rparr>"

definition unauthorized :: response where
  "unauthorized = error_response 401 ''Unauthorized'' ''User ID not found in authentication context''"

text \<open>\<open>event.body || '{}'\<close>: an absent or empty body reads as the empty object.\<close>

definition body_text :: "api_event \<Rightarrow> string" where
  "body_text ev = (case body ev of None \<Rightarrow> ''{}'' | Some s \<Rightarrow> if s = [] then ''{}'' else s)"

section \<open>Submission intake: postFeedback.js\<close>

text \<open>
  The body of the handler's \<open>try\<close> block. \<open>Inl\<close> is an exception that reaches
  the outer \<open>catch\<close>: the destructuring of a \<open>null\<close> body, or a failed publish.
\<close>

definition postFeedback_try ::
  "builtins \<Rightarrow> config \<Rightarrow> api_event \<Rightarrow> world \<Rightarrow> (js_error + response) \<times> world" where
  "postFeedback_try B cfg ev w =
     (case sub ev of
        None \<Rightarrow> (Inr unauthorized, w)
      | Some userId \<Rightarrow>
          if userId = [] then (Inr unauthorized, w)
          else
            (case JSON_parse B (body_text ev) of
               None \<Rightarrow> (Inr (error_response 400 ''Bad Request''
                               ''Invalid JSON in request body''), w)
             | Some requestBody \<Rightarrow>
                 if requestBody = JNull then (Inl TypeError, w)
                 else
                   let feedback = get_member requestBody ''feedback'';
                       tags = get_member requestBody ''tags'';
                       feedbackType = get_member requestBody ''feedbackType''
                   in (case feedback of
                         Some (JStr text) \<Rightarrow>
                           if text = [] \<or> length (trim text) = 0 then
                             (Inr (error_response 400 ''Bad Request''
                                ''Feedback text is required and must be a non-empty string''), w)
                           else if length text > 10000 then
                             (Inr (error_response 400 ''Bad Request''
                                ''Feedback text must not exceed 10,000 characters''), w)
                           else if tags \<noteq> None \<and> \<not> isArray (the tags) then
                             (Inr (error_response 400 ''Bad Request''
                                ''Tags must be an array of strings''), w)
                           else
                             (case Date_now w of (now, w1) \<Rightarrow>
                                let message = JObj
                                      [(''userId'', JStr userId),
                                       (''feedback'', JStr (trim text)),
                                       (''timestamp'', JNum now),
                                       (''tags'', or_else tags (JArr [])),
                                       (''feedbackType'', or_else feedbackType (JStr ''general''))];
                                    publishParams =
                                      \<lparr>TopicArn = SNS_TOPIC_ARN cfg,
                                       Message = JSON_stringify B message,
                                       Subject = ''Feedback Recommendation Request'',
                                       attr_userId = userId,
                                       attr_timestamp = show_int now\<rparr>
                                in (case sns_send publishParams w1 of
                                      (Inl e, w2) \<Rightarrow> (Inl e, w2)
                                    | (Inr mid, w2) \<Rightarrow>
                                        (Inr \<lparr>statusCode = 202,
                                              payload = JObj
                                                [(''message'', JStr ''Feedback submitted successfully for processing''),
                                                 (''messageId'', JStr mid),
                                                 (''status'', JStr ''processing'')]\<rparr>, w2)))
                       | _ \<Rightarrow>
                           (Inr (error_response 400 ''Bad Request''
                              ''Feedback text is required and must be a non-empty string''), w))))"

definition postFeedback_handler ::
  "builtins \<Rightarrow> config \<Rightarrow> api_event \<Rightarrow> world \<Rightarrow> response \<times> world" where
  "postFeedback_handler B cfg ev w =
     (case postFeedback_try B cfg ev w of
        (Inl e, w') \<Rightarrow> (internal_error B cfg ''Failed to submit feedback for processing'' e, w')
      | (Inr r, w') \<Rightarrow> (r, w'))"

section \<open>Update: updateRecommendation.js\<close>

text \<open>
  The fields of the \<open>SET\<close> expression that the request body supplies, in the
  order the handler tests them: \<open>completed\<close>, \<open>tags\<close> (only when it is an
  array), \<open>recommendations\<close>, \<open>feedbackType\<close>.
\<close>

definition supplied_fields :: "json \<Rightarrow> (string \<times> json) list" where
  "supplied_fields requestBody =
     (case get_member requestBody ''completed'' of
        None \<Rightarrow> [] | Some v \<Rightarrow> [(''completed'', v)]) @
     (case get_member requestBody ''tags'' of
        None \<Rightarrow> [] | Some v \<Rightarrow> if isArray v then [(''tags'', v)] else []) @
     (case get_member requestBody ''recommendations'' of
        None \<Rightarrow> [] | Some v \<Rightarrow> [(''recommendations'', v)]) @
     (case get_member requestBody ''feedbackType'' of
        None \<Rightarrow> [] | Some v \<Rightarrow> [(''feedbackType'', v)])"

text \<open>
  The value a request body supplies for an attribute, as the specification of the
  update has it: the member of that name for the whitelisted
  \<open>completed\<close>, \<open>recommendations\<close> and \<open>feedbackType\<close>, the member
  \<open>tags\<close> when it is an array, and nothing for any other name.
\<close>

definition requested :: "json \<Rightarrow> string \<Rightarrow> json option" where
  "requested requestBody a =
     (if a \<in> set [''completed'', ''recommendations'', ''feedbackType'']
      then get_member requestBody a
      else if a = ''tags''
      then (case get_member requestBody ''tags'' of
              Some (JArr xs) \<Rightarrow> Some (JArr xs)
            | _ \<Rightarrow> None)
      else None)"

definition updateRecommendation_try ::
  "builtins \<Rightarrow> config \<Rightarrow> api_event \<Rightarrow> world \<Rightarrow> (js_error + response) \<times> world" where
  "updateRecommendation_try B cfg ev w =
     (case sub ev of
        None \<Rightarrow> (Inr unauthorized, w)
      | Some userId \<Rightarrow>
          if userId = [] then (Inr unauthorized, w)
          else
            (case (case path_timestamp ev of None \<Rightarrow> None | Some s \<Rightarrow> parseInt B s) of
               None \<Rightarrow> (Inr (error_response 400 ''Bad Request''
                               ''Invalid or missing timestamp in path''), w)
             | Some timestamp \<Rightarrow>
                 if timestamp = 0 then
                   (Inr (error_response 400 ''Bad Request''
                           ''Invalid or missing timestamp in path''), w)
                 else
                   (case JSON_parse B (body_text ev) of
                      None \<Rightarrow> (Inr (error_response 400 ''Bad Request''
                                      ''Invalid JSON in request body''), w)
                    | Some requestBody \<Rightarrow>
                        (case ddb_get (JStr userId, JNum timestamp) w of
                           (Inl e, w1) \<Rightarrow> (Inl e, w1)
                         | (Inr None, w1) \<Rightarrow>
                             (Inr (error_response 404 ''Not Found''
                                     ''Recommendation not found''), w1)
                         | (Inr (Some existingItem), w1) \<Rightarrow>
                             if requestBody = JNull then (Inl TypeError, w1)
                             else
                               (case Date_now w1 of (now, w2) \<Rightarrow>
                                  let updateExpressions =
                                        supplied_fields requestBody @
                                        [(''updatedAt'', JStr (toISOString B now))]
                                  in if length updateExpressions = 1 then
                                       (Inr (error_response 400 ''Bad Request''
                                               ''No valid fields to update''), w2)
                                     else
                                       (case ddb_update (JStr userId, JNum timestamp)
                                               updateExpressions w2 of
                                          (Inl e, w3) \<Rightarrow> (Inl e, w3)
                                        | (Inr attributes, w3) \<Rightarrow>
                                            (Inr \<lparr>statusCode = 200,
                                                  payload = JObj
                                                    [(''message'', JStr ''Recommendation updated successfully''),
                                                     (''recommendation'', JObj attributes)]\<rparr>,
                                             w3)))))))"

definition updateRecommendation_handler ::
  "builtins \<Rightarrow> config \<Rightarrow> api_event \<Rightarrow> world \<Rightarrow> response \<times> world" where
  "updateRecommendation_handler B cfg ev w =
     (case updateRecommendation_try B cfg ev w of
        (Inl e, w') \<Rightarrow> (internal_error B cfg ''Failed to update recommendation'' e, w')
      | (Inr r, w') \<Rightarrow> (r, w'))"

section \<open>Bulk delete: the second handler of getRecommendations.js\<close>

text \<open>\<open>xs.slice(i, j)\<close> for indices that are not negative.\<close>

definition slice :: "'a list \<Rightarrow> nat \<Rightarrow> nat \<Rightarrow> 'a list" where
  "slice xs i j = take (j - i) (drop i xs)"

text \<open>
  The loop \<open>for (let i = 0; i < Items.length; i += batchSize)\<close>; an exception
  of the store leaves the loop.
\<close>

abbreviation batchSize :: nat where
  "batchSize \<equiv> 25"

function delete_batches ::
  "item list \<Rightarrow> nat \<Rightarrow> nat \<Rightarrow> world \<Rightarrow> (js_error + nat) \<times> world" where
  "delete_batches items i deletedCount w =
     (if i < length items then
        (let batch = slice items i (i + batchSize);
             deleteRequests = map (\<lambda>item. (map_of item ''userId'', map_of item ''timestamp'')) batch
         in case ddb_batch_delete deleteRequests w of
              (Inl e, w') \<Rightarrow> (Inl e, w')
            | (Inr u, w') \<Rightarrow>
                delete_batches items (i + batchSize) (deletedCount + length batch) w')
      else (Inr deletedCount, w))"
  by pat_completeness auto
termination
  by (relation "measure (\<lambda>(items, i, deletedCount, w). length items - i)") auto

declare delete_batches.simps [simp del]

definition deleteRecommendations_try ::
  "builtins \<Rightarrow> config \<Rightarrow> api_event \<Rightarrow> world \<Rightarrow> (js_error + response) \<times> world" where
  "deleteRecommendations_try B cfg ev w =
     (case sub ev of
        None \<Rightarrow> (Inr unauthorized, w)
      | Some userId \<Rightarrow>
          if userId = [] then (Inr unauthorized, w)
          else
            (case ddb_query userId (Some [(''#ts'', ''timestamp'')]) [] True
                    (Some [''userId'', ''timestamp'']) w of
               (Inl e, w1) \<Rightarrow> (Inl e, w1)
             | (Inr items, w1) \<Rightarrow>
                 if length items = 0 then
                   (Inr \<lparr>statusCode = 200,
                         payload = JObj [(''message'', JStr ''No recommendations to delete''),
                                         (''deletedCount'', JNum 0)]\<rparr>, w1)
                 else
                   (case delete_batches items 0 0 w1 of
                      (Inl e, w2) \<Rightarrow> (Inl e, w2)
                    | (Inr deletedCount, w2) \<Rightarrow>
                        (Inr \<lparr>statusCode = 200,
                              payload = JObj [(''message'', JStr ''Recommendations deleted successfully''),
                                              (''deletedCount'', JNum (int deletedCount))]\<rparr>, w2))))"

definition deleteRecommendations_handler ::
  "builtins \<Rightarrow> config \<Rightarrow> api_event \<Rightarrow> world \<Rightarrow> response \<times> world" where
  "deleteRecommendations_handler B cfg ev w =
     (case deleteRecommendations_try B cfg ev w of
        (Inl e, w') \<Rightarrow> (internal_error B cfg ''Failed to delete recommendations'' e, w')
      | (Inr r, w') \<Rightarrow> (r, w'))"

text \<open>The sizes of the batched delete calls in a log of commands.\<close>

fun batch_sizes :: "ddb_command list \<Rightarrow> nat list" where
  "batch_sizes [] = []"
| "batch_sizes (BatchWriteCommand keys # cmds) = length keys # batch_sizes cmds"
| "batch_sizes (cmd # cmds) = batch_sizes cmds"

text \<open>
  The batches the specification expects: \<open>n\<close> records go in full batches of 25
  and one last batch with the rest, if any. \<open>owner_rows\<close> are the rows of an
  owner, \<open>key_items\<close> the items the key query returns (those of the first
  page of the owner's partition), and \<open>key_request\<close> is the key a delete
  request is built from.
\<close>

definition batch_plan :: "nat \<Rightarrow> nat list" where
  "batch_plan n = replicate (n div 25) 25 @ (if n mod 25 = 0 then [] else [n mod 25])"

definition key_request :: "item \<Rightarrow> json option \<times> json option" where
  "key_request = (\<lambda>item. (map_of item ''userId'', map_of item ''timestamp''))"

text \<open>A key request that can be sent and carries a valid key.\<close>

fun sendable_key :: "json option \<times> json option \<Rightarrow> bool" where
  "sendable_key (Some (JStr u), Some (JNum t)) = key_ok u t"
| "sendable_key k = False"

definition owner_rows :: "string \<Rightarrow> world \<Rightarrow> row list" where
  "owner_rows userId w = filter (\<lambda>r. fst (fst r) = userId) (table w)"

definition key_items :: "string \<Rightarrow> world \<Rightarrow> item list" where
  "key_items userId w =
     map (\<lambda>r. project [''userId'', ''timestamp''] (item_of r)) (first_page userId True w)"

section \<open>Search: searchRecommendations (src/unnamed/part_001)\<close>

text \<open>
  The filter expressions the handler collects from the query parameters, in its
  order: the two date bounds, the feedback type, the completion flag, the tags. They
  are joined with \<open>AND\<close>; the conditions of the tags are joined with \<open>OR\<close>.
  With each expression it pushes, the handler enters the attribute under its
  placeholder (\<open>#timestamp\<close>, \<open>#feedbackType\<close>, \<open>#completed\<close>,
  \<open>#tags\<close>) into \<open>ExpressionAttributeNames\<close>, which starts as the empty
  object and is sent in every case.
\<close>

definition date_filter ::
  "builtins \<Rightarrow> (string \<Rightarrow> json \<Rightarrow> cond) \<Rightarrow> string option \<Rightarrow> cond list" where
  "date_filter B cmp d =
     (case d of
        None \<Rightarrow> []
      | Some text \<Rightarrow>
          if text = [] then []
          else (case Date_getTime B text of
                  None \<Rightarrow> []
                | Some t \<Rightarrow> [cmp ''timestamp'' (JNum t)]))"

definition feedbackType_filter :: "string option \<Rightarrow> cond list" where
  "feedbackType_filter feedbackType =
     (case feedbackType of
        None \<Rightarrow> []
      | Some text \<Rightarrow> if text = [] then [] else [Eq ''feedbackType'' (JStr text)])"

definition completed_filter :: "string option \<Rightarrow> cond list" where
  "completed_filter completed =
     (case completed of
        None \<Rightarrow> []
      | Some text \<Rightarrow> [Eq ''completed'' (JBool (text = ''true''))])"

definition tagArray :: "string \<Rightarrow> string list" where
  "tagArray tags = filter (\<lambda>t. t \<noteq> []) (map trim (split_on (CHR '','') tags))"

definition tags_filter :: "string option \<Rightarrow> cond list" where
  "tags_filter tags =
     (case tags of
        None \<Rightarrow> []
      | Some text \<Rightarrow>
          if text = [] then []
          else if length (tagArray text) > 0
               then [ContainsAny ''tags'' (map JStr (tagArray text))]
               else [])"

definition expression_names :: "cond list \<Rightarrow> (string \<times> string) list" where
  "expression_names conds =
     fold (\<lambda>c. AList.update (CHR ''#'' # attribute c) (attribute c)) conds []"

text \<open>
  The callback of the text search. \<open>(item.originalFeedback || '').toLowerCase()\<close>
  throws a TypeError when the attribute is truthy and not a string.
\<close>

definition text_matches :: "builtins \<Rightarrow> string \<Rightarrow> item \<Rightarrow> js_error + bool" where
  "text_matches B searchLower item =
     (let recommendationsText =
            toLowerCase B (JSON_stringify B (or_else (map_of item ''recommendations'') (JArr [])))
      in case or_else (map_of item ''originalFeedback'') (JStr []) of
           JStr original \<Rightarrow>
             Inr (js_includes recommendationsText searchLower
                  \<or> js_includes (toLowerCase B original) searchLower)
         | _ \<Rightarrow> Inl TypeError)"

text \<open>\<open>Array.prototype.filter\<close> with a callback that may throw.\<close>

fun filter_items :: "(item \<Rightarrow> js_error + bool) \<Rightarrow> item list \<Rightarrow> js_error + item list" where
  "filter_items f [] = Inr []"
| "filter_items f (x # xs) =
     (case f x of
        Inl e \<Rightarrow> Inl e
      | Inr keep \<Rightarrow>
          (case filter_items f xs of
             Inl e \<Rightarrow> Inl e
           | Inr ys \<Rightarrow> Inr (if keep then x # ys else ys)))"

definition optional_member :: "string \<Rightarrow> string option \<Rightarrow> (string \<times> json) list" where
  "optional_member name v = (case v of None \<Rightarrow> [] | Some text \<Rightarrow> [(name, JStr text)])"

text \<open>\<open>event.queryStringParameters || {}\<close>\<close>

definition query_params :: "api_event \<Rightarrow> (string \<times> string) list" where
  "query_params ev = (case queryStringParameters ev of None \<Rightarrow> [] | Some q \<Rightarrow> q)"

definition searchRecommendations_try ::
  "builtins \<Rightarrow> config \<Rightarrow> api_event \<Rightarrow> world \<Rightarrow> (js_error + response) \<times> world" where
  "searchRecommendations_try B cfg ev w =
     (case sub ev of
        None \<Rightarrow> (Inr unauthorized, w)
      | Some userId \<Rightarrow>
          if userId = [] then (Inr unauthorized, w)
          else
            let queryParams = query_params ev;
                search = map_of queryParams ''search'';
                tags = map_of queryParams ''tags'';
                completed = map_of queryParams ''completed'';
                feedbackType = map_of queryParams ''feedbackType'';
                priority = map_of queryParams ''priority'';
                fromDate = map_of queryParams ''fromDate'';
                toDate = map_of queryParams ''toDate'';
                filterExpressions =
                  date_filter B Ge fromDate @ date_filter B Le toDate @
                  feedbackType_filter feedbackType @ completed_filter completed @
                  tags_filter tags
            in (case ddb_query userId (Some (expression_names filterExpressions))
                       filterExpressions False None w of
                  (Inl e, w1) \<Rightarrow> (Inl e, w1)
                | (Inr items, w1) \<Rightarrow>
                    (case (case search of
                             None \<Rightarrow> Inr items
                           | Some text \<Rightarrow>
                               if text \<noteq> [] \<and> trim text \<noteq> []
                               then filter_items (text_matches B (toLowerCase B text)) items
                               else Inr items) of
                       Inl e \<Rightarrow> (Inl e, w1)
                     | Inr recommendations \<Rightarrow>
                         (Inr \<lparr>statusCode = 200,
                               payload = JObj
                                 [(''recommendations'', JArr (map JObj recommendations)),
                                  (''count'', JNum (int (length recommendations))),
                                  (''filters'', JObj
                                     (optional_member ''search'' search @
                                      optional_member ''tags'' tags @
                                      optional_member ''completed'' completed @
                                      optional_member ''feedbackType'' feedbackType @
                                      optional_member ''fromDate'' fromDate @
                                      optional_member ''toDate'' toDate))]\<rparr>, w1))))"

definition searchRecommendations_handler ::
  "builtins \<Rightarrow> config \<Rightarrow> api_event \<Rightarrow> world \<Rightarrow> response \<times> world" where
  "searchRecommendations_handler B cfg ev w =
     (case searchRecommendations_try B cfg ev w of
        (Inl e, w') \<Rightarrow> (internal_error B cfg ''Failed to search recommendations'' e, w')
      | (Inr r, w') \<Rightarrow> (r, w'))"

text \<open>
  The filters as the specification of the search words them. A record contains a tag when the
  tag is an element of its \<open>tags\<close> sequence. A date bound is present when the
  parameter is a non-empty text that parses as a date, the category when it is a
  non-empty text, the completion flag whenever the parameter is given (it stands for
  true exactly when the text is \<open>true\<close>), the tags when the comma-separated
  text lists at least one non-blank tag. A record matches when it satisfies every
  filter that is present; it matches the tags filter when it contains at least one
  of the listed tags.
\<close>

definition has_tag :: "item \<Rightarrow> string \<Rightarrow> bool" where
  "has_tag it tag = (case map_of it ''tags'' of Some (JArr xs) \<Rightarrow> JStr tag \<in> set xs | _ \<Rightarrow> False)"

definition submitted_at :: "item \<Rightarrow> int option" where
  "submitted_at it = (case map_of it ''timestamp'' of Some (JNum t) \<Rightarrow> Some t | _ \<Rightarrow> None)"

definition matches_filters :: "builtins \<Rightarrow> (string \<times> string) list \<Rightarrow> item \<Rightarrow> bool" where
  "matches_filters B q it =
     ((\<forall>d t. map_of q ''fromDate'' = Some d \<and> d \<noteq> [] \<and> Date_getTime B d = Some t
          \<longrightarrow> (\<exists>x. submitted_at it = Some x \<and> t \<le> x))
    \<and> (\<forall>d t. map_of q ''toDate'' = Some d \<and> d \<noteq> [] \<and> Date_getTime B d = Some t
          \<longrightarrow> (\<exists>x. submitted_at it = Some x \<and> x \<le> t))
    \<and> (\<forall>c. map_of q ''feedbackType'' = Some c \<and> c \<noteq> []
          \<longrightarrow> map_of it ''feedbackType'' = Some (JStr c))
    \<and> (\<forall>c. map_of q ''completed'' = Some c
          \<longrightarrow> map_of it ''completed'' = Some (JBool (c = ''true'')))
    \<and> (\<forall>ts. map_of q ''tags'' = Some ts \<and> tagArray ts \<noteq> []
          \<longrightarrow> (\<exists>tag \<in> set (tagArray ts). has_tag it tag)))"

text \<open>The text search on a record: no restriction unless a non-blank text is given.\<close>

definition matches_text :: "builtins \<Rightarrow> (string \<times> string) list \<Rightarrow> item \<Rightarrow> bool" where
  "matches_text B q it =
     (\<forall>text. map_of q ''search'' = Some text \<and> text \<noteq> [] \<and> trim text \<noteq> []
         \<longrightarrow> text_matches B (toLowerCase B text) it = Inr True)"

text \<open>The conditions the handler builds from the query parameters.\<close>

definition search_conditions :: "builtins \<Rightarrow> (string \<times> string) list \<Rightarrow> cond list" where
  "search_conditions B q =
     date_filter B Ge (map_of q ''fromDate'') @ date_filter B Le (map_of q ''toDate'') @
     feedbackType_filter (map_of q ''feedbackType'') @
     completed_filter (map_of q ''completed'') @ tags_filter (map_of q ''tags'')"

text \<open>The records a response carries in its \<open>recommendations\<close> member.\<close>

definition returned :: "response \<Rightarrow> json list" where
  "returned r = (case get_member (payload r) ''recommendations'' of
                   Some (JArr xs) \<Rightarrow> xs | _ \<Rightarrow> [])"

section \<open>The enrichment worker: processFeedback.js\<close>

subsection \<open>generateRecommendations\<close>

text \<open>
  \<open>responseBody.content?.[0]?.text || ''\<close>. The read of \<open>content\<close> throws on
  a \<open>null\<close> body; \<open>?.\<close> yields \<open>undefined\<close> on \<open>null\<close> and
  \<open>undefined\<close>; element \<open>0\<close> of an array is its first element, of a string
  its first character, of an object its member \<open>0\<close>.
\<close>

fun element0 :: "json \<Rightarrow> json option" where
  "element0 (JArr xs) = (case xs of [] \<Rightarrow> None | x # _ \<Rightarrow> Some x)"
| "element0 (JStr s) = (case s of [] \<Rightarrow> None | c # _ \<Rightarrow> Some (JStr [c]))"
| "element0 (JObj kvs) = map_of kvs ''0''"
| "element0 v = None"

definition chain :: "json option \<Rightarrow> (json \<Rightarrow> json option) \<Rightarrow> json option" where
  "chain x f = (case x of None \<Rightarrow> None | Some v \<Rightarrow> if v = JNull then None else f v)"

definition response_text :: "json \<Rightarrow> js_error + json" where
  "response_text responseBody =
     (if responseBody = JNull then Inl TypeError
      else Inr (or_else (chain (chain (get_member responseBody ''content'') element0)
                               (\<lambda>first. get_member first ''text''))
                        (JStr [])))"

text \<open>
  The \<open>map\<close> callback that sanitises one recommendation with its index. Each
  \<open>String(...)\<close> may throw.
\<close>

definition sanitize :: "builtins \<Rightarrow> int \<Rightarrow> nat \<Rightarrow> json \<Rightarrow> js_error + json" where
  "sanitize B now index rec =
     (case to_String B (or_else (get_member rec ''title'') (JStr ''Recommendation'')) of
        Inl e \<Rightarrow> Inl e
      | Inr title \<Rightarrow>
     (case to_String B (or_else (get_member rec ''description'') (JStr [])) of
        Inl e \<Rightarrow> Inl e
      | Inr description \<Rightarrow>
     (case to_String B (or_else (get_member rec ''category'') (JStr ''general'')) of
        Inl e \<Rightarrow> Inl e
      | Inr category \<Rightarrow>
          Inr (JObj [(''id'', JStr (''rec-'' @ show_int now @ ''-'' @ show_nat index)),
                     (''title'', JStr (take 100 title)),
                     (''description'', JStr (take 500 description)),
                     (''priority'',
                        (case get_member rec ''priority'' of
                           Some p \<Rightarrow> if p \<in> set [JStr ''high'', JStr ''medium'', JStr ''low'']
                                     then p else JStr ''medium''
                         | None \<Rightarrow> JStr ''medium'')),
                     (''category'', JStr category)]))))"

text \<open>
  \<open>recommendations.map((rec, index) => ...)\<close>: each element reads the clock for its
  identifier, and the read of \<open>rec.title\<close> throws on a \<open>null\<close> element.
\<close>

fun sanitize_all ::
  "builtins \<Rightarrow> json list \<Rightarrow> nat \<Rightarrow> world \<Rightarrow> (js_error + json list) \<times> world" where
  "sanitize_all B [] index w = (Inr [], w)"
| "sanitize_all B (rec # recs) index w =
     (case Date_now w of (now, w1) \<Rightarrow>
        if rec = JNull then (Inl TypeError, w1)
        else (case sanitize B now index rec of
                Inl e \<Rightarrow> (Inl e, w1)
              | Inr item \<Rightarrow>
                  (case sanitize_all B recs (Suc index) w1 of
                     (Inl e, w2) \<Rightarrow> (Inl e, w2)
                   | (Inr rest, w2) \<Rightarrow> (Inr (item # rest), w2))))"

definition fallback :: "int \<Rightarrow> json" where
  "fallback now =
     JObj [(''id'', JStr (''rec-fallback-'' @ show_int now)),
           (''title'', JStr ''Review and analyze feedback''),
           (''description'', JStr ''A detailed analysis of this feedback is recommended to identify specific areas for improvement.''),
           (''priority'', JStr ''medium''),
           (''category'', JStr ''general'')]"

text \<open>
  The \<open>try\<close> block of \<open>generateRecommendations\<close>, for the feedback as the
  prompt carries it: the model is invoked, its response body parsed, the text of the
  first content block stripped of Markdown code fences, trimmed and parsed, and the
  array it must be is sanitised. \<open>Inl\<close> is an exception inside the block.
\<close>

definition recommendations_try ::
  "builtins \<Rightarrow> config \<Rightarrow> string \<Rightarrow> world \<Rightarrow> (js_error + json list) \<times> world" where
  "recommendations_try B cfg feedback_text w =
     (case invoke_model (BEDROCK_MODEL_ID cfg) feedback_text w of
        (Inl e, w1) \<Rightarrow> (Inl e, w1)
      | (Inr decoded, w1) \<Rightarrow>
          (case JSON_parse B decoded of
             None \<Rightarrow> (Inl SyntaxError, w1)
           | Some responseBody \<Rightarrow>
               (case response_text responseBody of
                  Inl e \<Rightarrow> (Inl e, w1)
                | Inr (JStr recommendationsText) \<Rightarrow>
                    (case JSON_parse B
                            (trim (strip_all ''```'' (strip_all ''```json'' recommendationsText))) of
                       None \<Rightarrow> (Inl SyntaxError, w1)
                     | Some (JArr recommendations) \<Rightarrow> sanitize_all B recommendations 0 w1
                     | Some _ \<Rightarrow>
                         (Inl (Error ''Bedrock did not return an array of recommendations''), w1))
                | Inr _ \<Rightarrow> (Inl TypeError, w1))))"

text \<open>
  \<open>generateRecommendations\<close>: the prompt interpolates the feedback before the
  \<open>try\<close> block is entered, so an exception of that conversion leaves the
  function (\<open>Inl\<close>); the \<open>catch\<close> of the block returns the fallback
  recommendation.
\<close>

definition generateRecommendations ::
  "builtins \<Rightarrow> config \<Rightarrow> json \<Rightarrow> world \<Rightarrow> (js_error + json list) \<times> world" where
  "generateRecommendations B cfg feedback w =
     (case to_String B feedback of
        Inl e \<Rightarrow> (Inl e, w)
      | Inr feedback_text \<Rightarrow>
          (case recommendations_try B cfg feedback_text w of
             (Inl e, w1) \<Rightarrow> (case Date_now w1 of (now, w2) \<Rightarrow> (Inr [fallback now], w2))
           | (Inr recommendations, w1) \<Rightarrow> (Inr recommendations, w1)))"

subsection \<open>The handler\<close>

record sqs_record =
  messageId :: string
  record_body :: string

record results =
  successful :: "(string \<times> json) list"
  failed :: "(string \<times> string) list"

text \<open>
  \<open>JSON.parse(snsMessage.Message)\<close>: the argument is converted to a string
  first, which may throw; \<open>undefined\<close> converts to a text that is no JSON.
\<close>

definition parse_member :: "builtins \<Rightarrow> json option \<Rightarrow> js_error + json" where
  "parse_member B x =
     (case x of
        None \<Rightarrow> Inl SyntaxError
      | Some v \<Rightarrow>
          (case to_String B v of
             Inl e \<Rightarrow> Inl e
           | Inr text \<Rightarrow> (case JSON_parse B text of None \<Rightarrow> Inl SyntaxError | Some m \<Rightarrow> Inr m)))"

text \<open>
  The body of the \<open>try\<close> block for one SQS record. \<open>Inr\<close> is the end of the
  iteration (also by \<open>continue\<close>) with the results so far, \<open>Inl\<close> an exception.
\<close>

definition process_try ::
  "builtins \<Rightarrow> config \<Rightarrow> sqs_record \<Rightarrow> results \<Rightarrow> world \<Rightarrow> (js_error + results) \<times> world" where
  "process_try B cfg record res w =
     (case JSON_parse B (record_body record) of
        None \<Rightarrow> (Inl SyntaxError, w)
      | Some snsMessage \<Rightarrow>
          if snsMessage = JNull then (Inl TypeError, w)
          else
            (case parse_member B (get_member snsMessage ''Message'') of
               Inl e \<Rightarrow> (Inl e, w)
             | Inr message \<Rightarrow>
                 if message = JNull then (Inl TypeError, w)
                 else
                   let userId = get_member message ''userId'';
                       feedback = get_member message ''feedback'';
                       timestamp = get_member message ''timestamp''
                   in if \<not> truthy_opt userId \<or> \<not> truthy_opt feedback then
                        (Inr (res\<lparr>failed := failed res @
                                 [(messageId record, ''Invalid message format'')]\<rparr>), w)
                      else
                        (case generateRecommendations B cfg (the feedback) w of
                           (Inl e, w1) \<Rightarrow> (Inl e, w1)
                         | (Inr recommendations, w1) \<Rightarrow>
                             (case (if truthy_opt timestamp then (the timestamp, w1)
                                    else (case Date_now w1 of (now, w') \<Rightarrow> (JNum now, w'))) of
                                (ts, w2) \<Rightarrow>
                                  (case Date_now w2 of (generated, w3) \<Rightarrow>
                                     (case Date_now w3 of (updated, w4) \<Rightarrow>
                                        let Item =
                                              [(''userId'', the userId),
                                               (''timestamp'', ts),
                                               (''feedbackType'',
                                                  or_else (get_member message ''feedbackType'')
                                                          (JStr ''general'')),
                                               (''originalFeedback'', the feedback),
                                               (''recommendations'', JArr recommendations),
                                               (''generatedAt'', JStr (toISOString B generated)),
                                               (''modelId'', JStr (BEDROCK_MODEL_ID cfg)),
                                               (''tags'', or_else (get_member message ''tags'') (JArr [])),
                                               (''completed'', JBool False),
                                               (''updatedAt'', JStr (toISOString B updated))]
                                        in (case ddb_put Item w4 of
                                              (Inl e, w5) \<Rightarrow> (Inl e, w5)
                                            | (Inr u, w5) \<Rightarrow>
                                                (Inr (res\<lparr>successful := successful res @
                                                         [(messageId record, the userId)]\<rparr>),
                                                 w5))))))))"

text \<open>
  The loop over \<open>event.Records\<close>. The \<open>catch\<close> of an iteration records the
  failure and throws the error again, which ends the handler: \<open>Inl\<close> is the
  rejection of the invocation, \<open>Inr\<close> the results of its 200 response.
\<close>

fun process_records ::
  "builtins \<Rightarrow> config \<Rightarrow> sqs_record list \<Rightarrow> results \<Rightarrow> world \<Rightarrow> (js_error + results) \<times> world" where
  "process_records B cfg [] res w = (Inr res, w)"
| "process_records B cfg (record # records) res w =
     (case process_try B cfg record res w of
        (Inl error, w') \<Rightarrow> (Inl error, w')
      | (Inr res', w') \<Rightarrow> process_records B cfg records res' w')"

definition processFeedback_handler ::
  "builtins \<Rightarrow> config \<Rightarrow> sqs_record list \<Rightarrow> world \<Rightarrow> (js_error + results) \<times> world" where
  "processFeedback_handler B cfg Records w =
     process_records B cfg Records \<lparr>successful = [], failed = []\<rparr> w"

subsection \<open>Notions of the specification of the worker\<close>

text \<open>
  \<open>inner_message\<close> is the inner submission envelope of a record when its
  transport envelope and its payload both parse. A record is \<open>well_formed\<close>
  for an owner, a feedback and a timestamp when its inner envelope is a record the
  worker can enrich and the store can take: the owner is a text that can be a key;
  the feedback is present, truthy and can be put into the prompt (every text can);
  the timestamp is a number other than zero that can be sent, or it is absent or
  falsy (\<open>None\<close>: the worker then takes the current time); the category
  is a text that can be a key, or it is absent or falsy (the worker then stores
  \<open>general\<close>); and the feedback and the tags can be sent.
  \<open>epoch_clock\<close> says that the clock shows time values:
  integers of a magnitude of at most 8,640,000,000,000,000 milliseconds.
  \<open>model_output\<close> is the document the model's answer
  parses to: nothing when the call fails, when the response body or the text of its
  first content block does not parse, or when the body has no such text.
  \<open>after_invoke\<close> is the world after the model call, and
  \<open>stored_recommendations\<close> reads the \<open>recommendations\<close> of the record
  stored under a key.
\<close>

definition inner_message :: "builtins \<Rightarrow> sqs_record \<Rightarrow> json option" where
  "inner_message B record =
     (case JSON_parse B (record_body record) of
        None \<Rightarrow> None
      | Some snsMessage \<Rightarrow>
          if snsMessage = JNull then None
          else (case parse_member B (get_member snsMessage ''Message'') of
                  Inl e \<Rightarrow> None
                | Inr message \<Rightarrow> Some message))"

definition well_formed ::
  "builtins \<Rightarrow> sqs_record \<Rightarrow> string \<Rightarrow> json \<Rightarrow> int option \<Rightarrow> bool" where
  "well_formed B record userId feedback timestamp =
     (case inner_message B record of
        None \<Rightarrow> False
      | Some message \<Rightarrow>
          message \<noteq> JNull
          \<and> get_member message ''userId'' = Some (JStr userId) \<and> key_text_ok userId
          \<and> get_member message ''feedback'' = Some feedback \<and> truthy feedback
          \<and> \<not> raises (to_String B feedback) \<and> marshallable feedback
          \<and> (case timestamp of
                Some t \<Rightarrow> get_member message ''timestamp'' = Some (JNum t) \<and> t \<noteq> 0
                          \<and> marshallable (JNum t)
              | None \<Rightarrow> \<not> truthy_opt (get_member message ''timestamp''))
          \<and> (case get_member message ''feedbackType'' of
                None \<Rightarrow> True
              | Some category \<Rightarrow> \<not> truthy category \<or> index_key_ok (Some category))
          \<and> (case get_member message ''tags'' of
                None \<Rightarrow> True
              | Some tags \<Rightarrow> marshallable tags))"

definition epoch_clock :: "world \<Rightarrow> bool" where
  "epoch_clock w = (\<forall>n. \<bar>clock w n\<bar> \<le> 8640000000000000)"

text \<open>
  The sort key of the record the worker stores: the timestamp of the message, or
  the reading of the clock when the message has none.
\<close>

definition key_time :: "int option \<Rightarrow> int \<Rightarrow> int" where
  "key_time timestamp now = (case timestamp of Some t \<Rightarrow> t | None \<Rightarrow> now)"

definition model_text :: "string \<Rightarrow> string" where
  "model_text t = trim (strip_all ''```'' (strip_all ''```json'' t))"

definition model_output :: "builtins \<Rightarrow> world \<Rightarrow> json option" where
  "model_output B w =
     (case bedrock_replies w 0 of
        InvokeFailed msg \<Rightarrow> None
      | InvokeBody decoded \<Rightarrow>
          (case JSON_parse B decoded of
             None \<Rightarrow> None
           | Some responseBody \<Rightarrow>
               (case response_text responseBody of
                  Inr (JStr t) \<Rightarrow> JSON_parse B (model_text t)
                | _ \<Rightarrow> None)))"

text \<open>
  The inference step fails when the model yields no document, a document that is
  not an array, or an array with an element that cannot be sanitised: a
  \<open>null\<close>, or an element with a title, description or category whose
  conversion to a string throws.
\<close>

definition inference_fails :: "builtins \<Rightarrow> world \<Rightarrow> bool" where
  "inference_fails B w =
     (case model_output B w of
        None \<Rightarrow> True
      | Some (JArr recs) \<Rightarrow> \<exists>rec \<in> set recs. rec = JNull \<or> raises (sanitize B 0 0 rec)
      | Some other \<Rightarrow> True)"

definition after_invoke :: "config \<Rightarrow> string \<Rightarrow> world \<Rightarrow> world" where
  "after_invoke cfg feedback_text w =
     w\<lparr>bedrock_replies := (\<lambda>n. bedrock_replies w (Suc n)),
       invoked := invoked w @ [(BEDROCK_MODEL_ID cfg, feedback_text)]\<rparr>"

definition stored_recommendations :: "world \<Rightarrow> string \<times> int \<Rightarrow> json option" where
  "stored_recommendations w k =
     (case map_of (table w) k of None \<Rightarrow> None | Some attrs \<Rightarrow> map_of attrs ''recommendations'')"

section \<open>Concrete runs\<close>

text \<open>
  A serialiser for the documents of the concrete runs below (their strings have no
  control characters), a lower-casing of ASCII letters, and the built-ins of a run:
  \<open>node\<close> knows no JSON text, date or number; a run extends it with the parses
  of the texts it meets. No run prints a number of magnitude \<open>10\<^sup>2\<^sup>1\<close> or
  more.
\<close>

definition quote :: "string \<Rightarrow> string" where
  "quote s = CHR 0x22 #
     concat (map (\<lambda>c. if c = CHR 0x22 \<or> c = CHR 0x5C then [CHR 0x5C, c] else [c]) s) @
     [CHR 0x22]"

fun stringify :: "json \<Rightarrow> string" where
  "stringify JNull = ''null''"
| "stringify (JBool b) = (if b then ''true'' else ''false'')"
| "stringify (JNum n) = show_int n"
| "stringify (JStr s) = quote s"
| "stringify (JArr xs) = ''['' @ join_with '','' (map stringify xs) @ '']''"
| "stringify (JObj kvs) =
     ''{'' @ join_with '','' (map (\<lambda>(k, v). quote k @ '':'' @ stringify v) kvs) @ ''}''"

definition lower :: "string \<Rightarrow> string" where
  "lower s = map (\<lambda>c. case map_of (zip ''ABCDEFGHIJKLMNOPQRSTUVWXYZ''
                                        ''abcdefghijklmnopqrstuvwxyz'') c of
                        None \<Rightarrow> c | Some l \<Rightarrow> l) s"

definition node :: builtins where
  "node = \<lparr>JSON_parse = (\<lambda>text. None),
           JSON_stringify = stringify,
           parseInt = (\<lambda>text. None),
           Date_getTime = (\<lambda>text. None),
           toISOString = (\<lambda>t. if t = 86400000 then ''1970-01-02T00:00:00.000Z'' else []),
           toLowerCase = lower,
           error_message = (\<lambda>e. case e of Error msg \<Rightarrow> msg | SdkError msg \<Rightarrow> msg
                                 | _ \<Rightarrow> ''Unexpected token''),
           Number_toString = (\<lambda>n. ''1e+21'')\<rparr>"

definition dev :: config where
  "dev = \<lparr>DYNAMODB_TABLE_NAME = ''Recommendations-dev'',
          SNS_TOPIC_ARN = ''arn:aws:sns:eu-central-1:123456789012:feedback-dev'',
          BEDROCK_MODEL_ID = ''anthropic.claude-3-sonnet-20240229-v1:0'',
          NODE_ENV = ''dev''\<rparr>"

text \<open>
  A world at the start of an invocation: the clock stands at one day after the
  epoch, the topic accepts every message, the model call times out, the store
  answers every call, every partition fits into one page, and the table holds the
  given rows.
\<close>

definition world_with :: "row list \<Rightarrow> world" where
  "world_with rows =
     \<lparr>clock = (\<lambda>n. 86400000),
      sns_replies = (\<lambda>n. Inr ''4f1c2d3e-0000-4000-8000-000000000001''),
      published = [],
      bedrock_replies = (\<lambda>n. InvokeFailed ''TimeoutError''),
      invoked = [],
      ddb_faults = [],
      ddb_log = [],
      page_rows = length,
      table = rows\<rparr>"

definition request :: "string option \<Rightarrow> api_event" where
  "request b = \<lparr>sub = Some ''U1'', body = b, path_timestamp = None,
                queryStringParameters = None\<rparr>"

text \<open>
  Three submissions: one with no feedback, one whose feedback is the letter
  \<open>a\<close> followed by 10000 spaces, and a plain one with white space around it.
\<close>

definition padded_text :: string where
  "padded_text = CHR ''a'' # replicate 10000 (CHR '' '')"

definition padded_doc :: json where
  "padded_doc = JObj [(''feedback'', JStr padded_text)]"

definition plain_doc :: json where
  "plain_doc = JObj [(''feedback'', JStr '' Response times are slow ''),
                     (''tags'', JArr [JStr ''performance''])]"

text \<open>A table with 57 records of owner \<open>U1\<close> and one of owner \<open>U2\<close>.\<close>

definition fifty_seven :: "row list" where
  "fifty_seven = map (\<lambda>t. ((''U1'', int t), [(''completed'', JBool False)])) [0..<57] @
                 [((''U2'', 7), [(''completed'', JBool True)])]"

text \<open>The same table in a store whose page holds 40 rows of that size.\<close>

definition long_history :: world where
  "long_history = (world_with fifty_seven)\<lparr>page_rows := (\<lambda>rows. 40)\<rparr>"

text \<open>
  An update of the record of owner \<open>U1\<close> at \<open>1001\<close>, with a body
  whose \<open>tags\<close> is a text, with a body that marks the record completed, and
  with a body whose \<open>feedbackType\<close> is a number.
\<close>

definition update_request :: "json \<Rightarrow> api_event" where
  "update_request doc = \<lparr>sub = Some ''U1'', body = Some (stringify doc),
                          path_timestamp = Some ''1001'', queryStringParameters = None\<rparr>"

definition node_for :: "json \<Rightarrow> builtins" where
  "node_for doc = node\<lparr>JSON_parse := map_of [(stringify doc, doc)],
                       parseInt := map_of [(''1001'', 1001)]\<rparr>"

definition slow_responses :: item where
  "slow_responses = [(''feedbackType'', JStr ''general''),
                     (''originalFeedback'', JStr ''Response times are slow''),
                     (''tags'', JArr []),
                     (''completed'', JBool False),
                     (''updatedAt'', JStr ''1970-01-01T00:00:01.001Z'')]"

definition one_record :: "row list" where
  "one_record = [((''U1'', 1001), slow_responses)]"

definition tags_as_text :: json where
  "tags_as_text = JObj [(''tags'', JStr ''urgent'')]"

definition mark_completed :: json where
  "mark_completed = JObj [(''completed'', JBool True)]"

definition category_number :: json where
  "category_number = JObj [(''feedbackType'', JNum 5)]"

text \<open>
  A search of owner \<open>U1\<close> with the given query parameters, the built-ins
  that parse the date of the epoch, and a table with three records of \<open>U1\<close>
  (tagged a; c; c and b, submitted 1001 to 1003 milliseconds after the epoch) and one
  of \<open>U2\<close>.
\<close>

definition search_request :: "(string \<times> string) list \<Rightarrow> api_event" where
  "search_request q = \<lparr>sub = Some ''U1'', body = None, path_timestamp = None,
                        queryStringParameters = Some q\<rparr>"

definition since_epoch :: builtins where
  "since_epoch = node\<lparr>Date_getTime := map_of [(''1970-01-01T00:00:00.000Z'', 0)]\<rparr>"

definition tagged_records :: "row list" where
  "tagged_records =
     [((''U1'', 1001), [(''tags'', JArr [JStr ''a'']), (''completed'', JBool False)]),
      ((''U1'', 1002), [(''tags'', JArr [JStr ''c'']), (''completed'', JBool False)]),
      ((''U1'', 1003), [(''tags'', JArr [JStr ''c'', JStr ''b'']), (''completed'', JBool False)]),
      ((''U2'', 1004), [(''tags'', JArr [JStr ''a'']), (''completed'', JBool False)])]"

text \<open>
  Deliveries of the worker: a submission as the intake publishes it, wrapped in the
  notification of the topic; an answer of the model with one recommendation
  (\<open>advice\<close>) and one that is an object, not an array (\<open>stray\<close>); the
  built-ins that parse the listed documents; a world whose model answers the first
  two calls with the advice and every later call with the stray object; and a
  delivery whose payload is no JSON.
\<close>

definition submission :: "string \<Rightarrow> int \<Rightarrow> json" where
  "submission owner t =
     JObj [(''userId'', JStr owner), (''feedback'', JStr ''Response times are slow''),
           (''timestamp'', JNum t), (''tags'', JArr []), (''feedbackType'', JStr ''general'')]"

definition raw_notification :: "string \<Rightarrow> json" where
  "raw_notification text = JObj [(''Type'', JStr ''Notification''), (''Message'', JStr text)]"

definition notification :: "json \<Rightarrow> json" where
  "notification message = raw_notification (stringify message)"

definition delivery :: "string \<Rightarrow> json \<Rightarrow> sqs_record" where
  "delivery mid message = \<lparr>messageId = mid, record_body = stringify (notification message)\<rparr>"

definition advice :: json where
  "advice = JArr [JObj [(''title'', JStr ''Add caching''),
                        (''description'', JStr ''Cache frequent responses''),
                        (''priority'', JStr ''high''),
                        (''category'', JStr ''performance'')]]"

definition stray :: json where
  "stray = JObj [(''title'', JStr ''Add caching'')]"

definition model_body :: "json \<Rightarrow> json" where
  "model_body v = JObj [(''content'', JArr [JObj [(''type'', JStr ''text''),
                                                  (''text'', JStr (stringify v))]])]"

definition parsing :: "json list \<Rightarrow> builtins" where
  "parsing docs = node\<lparr>JSON_parse := map_of (map (\<lambda>d. (stringify d, d)) docs)\<rparr>"

definition worker_docs :: "json list" where
  "worker_docs =
     [submission ''U1'' 1001, submission ''U2'' 1002, submission ''U3'' 1003,
      notification (submission ''U1'' 1001), notification (submission ''U2'' 1002),
      notification (submission ''U3'' 1003),
      advice, stray, model_body advice, model_body stray,
      JObj [(''userId'', JStr ''U4'')], notification (JObj [(''userId'', JStr ''U4'')]),
      raw_notification ''not json'']"

definition worker_world :: world where
  "worker_world =
     (world_with [])\<lparr>bedrock_replies :=
        (\<lambda>n. if n < 2 then InvokeBody (stringify (model_body advice))
             else InvokeBody (stringify (model_body stray)))\<rparr>"

definition three_messages :: "sqs_record list" where
  "three_messages = [delivery ''m1'' (submission ''U1'' 1001),
                     delivery ''m2'' (submission ''U2'' 1002),
                     delivery ''m3'' (submission ''U3'' 1003)]"

definition stray_world :: world where
  "stray_world = (world_with [])\<lparr>bedrock_replies := (\<lambda>n. InvokeBody (stringify (model_body stray)))\<rparr>"

text \<open>
  Two more submissions: one with a number as category, as the intake publishes it
  when the request carries one, and one whose feedback is an object with a member
  \<open>toString\<close>.
\<close>

definition numbered_category :: json where
  "numbered_category =
     JObj [(''userId'', JStr ''U5''), (''feedback'', JStr ''Response times are slow''),
           (''timestamp'', JNum 1005), (''tags'', JArr []), (''feedbackType'', JNum 7)]"

definition object_feedback :: json where
  "object_feedback =
     JObj [(''userId'', JStr ''U6''), (''feedback'', JObj [(''toString'', JStr ''slow'')]),
           (''timestamp'', JNum 1006), (''tags'', JArr []), (''feedbackType'', JStr ''general'')]"

definition odd_docs :: "json list" where
  "odd_docs = [numbered_category, notification numbered_category,
               object_feedback, notification object_feedback]"

definition unparsable :: sqs_record where
  "unparsable = \<lparr>messageId = ''m0'', record_body = stringify (raw_notification ''not json'')\<rparr>"

section \<open>Properties of the submission intake\<close>

lemma trim_padded: "trim (CHR ''a'' # replicate n (CHR '' '')) = ''a''"
proof -
  have "dropWhile is_space (replicate n (CHR '' '') @ ''a'') = ''a''"
    by (induction n) (simp_all add: is_space_def)
  then show ?thesis
    by (simp add: trim_def) (simp add: is_space_def)
qed

lemma trim_Nil: "trim [] = []"
  by (simp add: trim_def)

lemma stringify_object_not_empty: "stringify (JObj kvs) \<noteq> []"
  by simp

lemma body_text_stringify: "body_text (request (Some (stringify (JObj kvs)))) = stringify (JObj kvs)"
  using stringify_object_not_empty [of kvs]
  by (simp add: body_text_def request_def del: stringify.simps)

lemma trim_plain: "trim '' Response times are slow '' = ''Response times are slow''"
  by (simp add: trim_def is_space_def)

text \<open>
  A submission of an identified caller whose body is a JSON document other than the
  literal \<open>null\<close>, and whose feedback text is missing, not a string, empty after
  trimming or longer than 10,000 characters, or whose tags are present and not an
  array, is answered with 400 Bad Request, and the world is left as it was: nothing is
  published.
\<close>

lemma postFeedback_rejects_invalid_document:
  assumes "sub ev = Some userId" and "userId \<noteq> []"
    and "JSON_parse B (body_text ev) = Some requestBody" and "requestBody \<noteq> JNull"
    and "(case get_member requestBody ''feedback'' of
            None \<Rightarrow> True
          | Some (JStr text) \<Rightarrow> length (trim text) = 0 \<or> 10000 < length text
          | Some other \<Rightarrow> True)
         \<or> (case get_member requestBody ''tags'' of
               None \<Rightarrow> False
             | Some v \<Rightarrow> \<not> isArray v)"
  shows "statusCode (fst (postFeedback_handler B cfg ev w)) = 400
         \<and> snd (postFeedback_handler B cfg ev w) = w"
  using assms
  by (auto simp: postFeedback_handler_def postFeedback_try_def error_response_def
        Let_def trim_Nil
      split: option.splits json.splits)

text \<open>
  Claim C5 at the submission of an identified caller whose body is the JSON literal
  \<open>null\<close>. The document has no feedback text, so the claim expects 400 Bad
  Request; the handler destructures the document before it validates anything, the
  TypeError reaches the outer \<open>catch\<close>, and the answer is 500 Internal Server
  Error. Nothing is published. The same document with no members at all, \<open>{}\<close>,
  is answered with 400.
\<close>

theorem postFeedback_null_body_internal_error:
  "get_member JNull ''feedback'' = None
   \<and> fst (postFeedback_handler (node\<lparr>JSON_parse := map_of [(''null'', JNull), (''{}'', JObj [])]\<rparr>)
        dev (request (Some ''null'')) (world_with [])) =
       \<lparr>statusCode = 500,
        payload = JObj [(''error'', JStr ''Internal Server Error''),
                        (''message'', JStr ''Failed to submit feedback for processing'')]\<rparr>
   \<and> published (snd (postFeedback_handler
        (node\<lparr>JSON_parse := map_of [(''null'', JNull), (''{}'', JObj [])]\<rparr>)
        dev (request (Some ''null'')) (world_with []))) = []
   \<and> statusCode (fst (postFeedback_handler
        (node\<lparr>JSON_parse := map_of [(''null'', JNull), (''{}'', JObj [])]\<rparr>)
        dev (request (Some ''{}'')) (world_with []))) = 400"
  by (simp add: postFeedback_handler_def postFeedback_try_def request_def body_text_def
        internal_error_def error_response_def dev_def world_with_def)

text \<open>
  Claim C6, as stated, fails: the submission of an identified caller whose feedback
  is \<open>a\<close> followed by 10000 spaces has a trimmed text of length 1, and it is
  answered with 400 and nothing is published.
\<close>

theorem postFeedback_padded_text_not_accepted:
  "length (trim padded_text) = 1
   \<and> statusCode (fst (postFeedback_handler
        (node\<lparr>JSON_parse := map_of [(stringify padded_doc, padded_doc)]\<rparr>)
        dev (request (Some (stringify padded_doc))) (world_with []))) = 400
   \<and> published (snd (postFeedback_handler
        (node\<lparr>JSON_parse := map_of [(stringify padded_doc, padded_doc)]\<rparr>)
        dev (request (Some (stringify padded_doc))) (world_with []))) = []"
proof -
  have "body_text (request (Some (stringify padded_doc))) = stringify padded_doc"
    using stringify_object_not_empty [of "[(''feedback'', JStr padded_text)]"]
    by (simp add: body_text_def request_def padded_doc_def del: stringify.simps)
  then show ?thesis
    by (simp add: postFeedback_handler_def postFeedback_try_def request_def
          padded_doc_def [symmetric] trim_padded error_response_def world_with_def
          del: stringify.simps)
      (simp add: padded_doc_def padded_text_def trim_padded error_response_def)
qed

text \<open>
  Claim C6, amended. For a submission of an identified caller whose feedback is a
  string of at most 10,000 characters that is not empty after trimming, and whose
  tags are absent or an array: when the topic accepts the message, exactly one
  message is published, carrying the envelope with the caller as owner, the trimmed
  text, the clock reading, the tags or the empty array, and the feedback type or
  \<open>general\<close>; the answer is 202 with the message identifier the topic assigned
  and the status \<open>processing\<close>.
\<close>

theorem postFeedback_accepts_and_publishes:
  assumes "sub ev = Some userId" and "userId \<noteq> []"
    and "JSON_parse B (body_text ev) = Some requestBody"
    and "get_member requestBody ''feedback'' = Some (JStr text)"
    and "1 \<le> length (trim text)" and "length text \<le> 10000"
    and "get_member requestBody ''tags'' = None
         \<or> (\<exists>ts. get_member requestBody ''tags'' = Some (JArr ts))"
    and "sns_replies w 0 = Inr mid"
  shows "fst (postFeedback_handler B cfg ev w) =
           \<lparr>statusCode = 202,
            payload = JObj [(''message'', JStr ''Feedback submitted successfully for processing''),
                            (''messageId'', JStr mid), (''status'', JStr ''processing'')]\<rparr>
         \<and> published (snd (postFeedback_handler B cfg ev w)) = published w @
             [\<lparr>TopicArn = SNS_TOPIC_ARN cfg,
               Message = JSON_stringify B (JObj
                  [(''userId'', JStr userId),
                   (''feedback'', JStr (trim text)),
                   (''timestamp'', JNum (clock w 0)),
                   (''tags'', or_else (get_member requestBody ''tags'') (JArr [])),
                   (''feedbackType'',
                      or_else (get_member requestBody ''feedbackType'') (JStr ''general''))]),
               Subject = ''Feedback Recommendation Request'',
               attr_userId = userId,
               attr_timestamp = show_int (clock w 0)\<rparr>]"
proof -
  have "requestBody \<noteq> JNull" using assms(4) by auto
  with assms show ?thesis
    by (auto simp: postFeedback_handler_def postFeedback_try_def Date_now_def sns_send_def
          Let_def trim_Nil)
qed

theorem postFeedback_accepts_and_publishes_witness:
  "fst (postFeedback_handler (node\<lparr>JSON_parse := map_of [(stringify plain_doc, plain_doc)]\<rparr>)
         dev (request (Some (stringify plain_doc))) (world_with [])) =
     \<lparr>statusCode = 202,
      payload = JObj [(''message'', JStr ''Feedback submitted successfully for processing''),
                      (''messageId'', JStr ''4f1c2d3e-0000-4000-8000-000000000001''),
                      (''status'', JStr ''processing'')]\<rparr>
   \<and> published (snd (postFeedback_handler
         (node\<lparr>JSON_parse := map_of [(stringify plain_doc, plain_doc)]\<rparr>)
         dev (request (Some (stringify plain_doc))) (world_with []))) =
       [\<lparr>TopicArn = SNS_TOPIC_ARN dev,
         Message = stringify (JObj
            [(''userId'', JStr ''U1''),
             (''feedback'', JStr ''Response times are slow''),
             (''timestamp'', JNum 86400000),
             (''tags'', JArr [JStr ''performance'']),
             (''feedbackType'', JStr ''general'')]),
         Subject = ''Feedback Recommendation Request'',
         attr_userId = ''U1'',
         attr_timestamp = show_int 86400000\<rparr>]"
  using postFeedback_accepts_and_publishes
          [of "request (Some (stringify plain_doc))" "''U1''"
              "node\<lparr>JSON_parse := map_of [(stringify plain_doc, plain_doc)]\<rparr>"
              plain_doc "'' Response times are slow ''" "world_with []"
              "''4f1c2d3e-0000-4000-8000-000000000001''" dev]
        body_text_stringify [of "[(''feedback'', JStr '' Response times are slow ''),
                     (''tags'', JArr [JStr ''performance''])]"]
  by (simp add: plain_doc_def [symmetric] node_def trim_plain del: stringify.simps)
     (simp add: plain_doc_def request_def world_with_def or_else_def trim_plain del: stringify.simps)

text \<open>
  Claim C10. The limit of 10,000 characters is tested on the text as submitted, not
  on the trimmed text: a submission of an identified caller whose feedback has a
  trimmed length between 1 and 10,000 and a raw length above 10,000 is answered with
  400 Bad Request, and the world is left as it was: nothing is published.
\<close>

theorem postFeedback_limit_counts_raw_text:
  assumes "sub ev = Some userId" and "userId \<noteq> []"
    and "JSON_parse B (body_text ev) = Some requestBody"
    and "get_member requestBody ''feedback'' = Some (JStr text)"
    and "1 \<le> length (trim text)" and "length (trim text) \<le> 10000"
    and "10000 < length text"
  shows "fst (postFeedback_handler B cfg ev w) =
           error_response 400 ''Bad Request'' ''Feedback text must not exceed 10,000 characters''
         \<and> snd (postFeedback_handler B cfg ev w) = w"
proof -
  have "requestBody \<noteq> JNull" using assms(4) by auto
  with assms show ?thesis
    by (auto simp: postFeedback_handler_def postFeedback_try_def Let_def trim_Nil)
qed

theorem postFeedback_limit_counts_raw_text_witness:
  "length (trim padded_text) = 1 \<and> length padded_text = 10001
   \<and> fst (postFeedback_handler (node\<lparr>JSON_parse := map_of [(stringify padded_doc, padded_doc)]\<rparr>)
        dev (request (Some (stringify padded_doc))) (world_with [])) =
       error_response 400 ''Bad Request'' ''Feedback text must not exceed 10,000 characters''
   \<and> snd (postFeedback_handler (node\<lparr>JSON_parse := map_of [(stringify padded_doc, padded_doc)]\<rparr>)
        dev (request (Some (stringify padded_doc))) (world_with [])) = world_with []"
  using postFeedback_limit_counts_raw_text
          [of "request (Some (stringify padded_doc))" "''U1''"
              "node\<lparr>JSON_parse := map_of [(stringify padded_doc, padded_doc)]\<rparr>"
              padded_doc padded_text dev "world_with []"]
        body_text_stringify [of "[(''feedback'', JStr padded_text)]"]
  by (simp add: padded_doc_def [symmetric] del: stringify.simps)
     (simp add: padded_doc_def padded_text_def trim_padded request_def del: stringify.simps)

section \<open>Properties of the bulk delete\<close>

lemma batch_plan_step: "0 < m \<Longrightarrow> batch_plan m = min 25 m # batch_plan (m - 25)"
proof (cases "m < 25")
  case True
  assume "0 < m"
  with True show ?thesis by (simp add: batch_plan_def)
next
  case False
  then have "m div 25 = Suc ((m - 25) div 25)" and "m mod 25 = (m - 25) mod 25"
    by (simp_all add: le_div_geq le_mod_geq)
  with False show ?thesis by (simp add: batch_plan_def)
qed

lemma batch_plan_0: "batch_plan 0 = []"
  by (simp add: batch_plan_def)

lemma batch_sizes_append: "batch_sizes (xs @ ys) = batch_sizes xs @ batch_sizes ys"
  by (induction xs rule: batch_sizes.induct) simp_all

lemma sendable_key_parts:
  assumes "sendable_key k"
  shows "valid_key k \<noteq> None" and "fst k \<noteq> None" and "snd k \<noteq> None"
    and "marshallable (the (fst k))" and "marshallable (the (snd k))"
  using assms by (induction k rule: sendable_key.induct) (simp_all add: key_ok_def)

lemma ddb_batch_delete_ok:
  assumes "ddb_faults w = []" and "keys \<noteq> []" and "length keys \<le> 25"
    and "\<forall>k \<in> set keys. sendable_key k"
  shows "ddb_batch_delete keys w =
           (Inr (), w\<lparr>ddb_log := ddb_log w @ [BatchWriteCommand keys],
                      table := filter (\<lambda>r. Some (fst r) \<notin> valid_key ` set keys) (table w)\<rparr>)"
proof -
  have "\<not> (\<exists>k \<in> set keys. fst k = None \<or> snd k = None)"
    using assms(4) sendable_key_parts(2,3) by blast
  moreover have "\<not> (\<exists>v \<in> set (concat (map (\<lambda>k. [the (fst k), the (snd k)]) keys)).
                       \<not> marshallable v)"
    using assms(4) sendable_key_parts(4,5) by auto
  moreover have "\<not> (\<exists>k \<in> set keys. valid_key k = None)"
    using assms(4) sendable_key_parts(1) by blast
  ultimately show ?thesis
    using assms(1-3)
    by (simp add: ddb_batch_delete_def ddb_send_def ddb_call_def del: set_concat)
qed

lemma delete_batches_run:
  assumes "ddb_faults w = []"
    and "\<forall>it \<in> set items. sendable_key (key_request it)"
  shows "fst (delete_batches items i c w) = Inr (c + (length items - i))
       \<and> ddb_faults (snd (delete_batches items i c w)) = []
       \<and> batch_sizes (ddb_log (snd (delete_batches items i c w))) =
           batch_sizes (ddb_log w) @ batch_plan (length items - i)
       \<and> table (snd (delete_batches items i c w)) =
           filter (\<lambda>r. Some (fst r) \<notin> valid_key ` key_request ` set (drop i items)) (table w)"
  using assms
proof (induction items i c w rule: delete_batches.induct)
  case (1 items i c w)
  show ?case
  proof (cases "i < length items")
    case False
    with "1.prems" show ?thesis
      by (simp add: delete_batches.simps [of items i c w] batch_plan_0)
  next
    case True
    define batch where "batch = slice items i (i + 25)"
    define reqs where "reqs = map key_request batch"
    define w' where "w' = w\<lparr>ddb_log := ddb_log w @ [BatchWriteCommand reqs],
                      table := filter (\<lambda>r. Some (fst r) \<notin> valid_key ` set reqs) (table w)\<rparr>"
    have len: "length batch = min 25 (length items - i)"
      by (simp add: batch_def slice_def)
    have sub: "set batch \<subseteq> set items"
      unfolding batch_def slice_def by (meson set_drop_subset set_take_subset subset_trans)
    have ok: "ddb_batch_delete reqs w = (Inr (), w')"
      unfolding w'_def
      apply (rule ddb_batch_delete_ok)
      using "1.prems" True len sub by (auto simp: reqs_def)
    have step: "delete_batches items i c w = delete_batches items (i + 25) (c + length batch) w'"
      using True ok [unfolded reqs_def batch_def key_request_def]
      by (simp add: delete_batches.simps [of items i c w] batch_def Let_def)
    have faults': "ddb_faults w' = []"
      using "1.prems" by (simp add: w'_def)
    note ok' = ok [unfolded reqs_def batch_def key_request_def]
    have IH': "fst (delete_batches items (i + 25) (c + length batch) w') =
             Inr (c + length batch + (length items - (i + 25)))
       \<and> ddb_faults (snd (delete_batches items (i + 25) (c + length batch) w')) = []
       \<and> batch_sizes (ddb_log (snd (delete_batches items (i + 25) (c + length batch) w'))) =
           batch_sizes (ddb_log w') @ batch_plan (length items - (i + 25))
       \<and> table (snd (delete_batches items (i + 25) (c + length batch) w')) =
           filter (\<lambda>r. Some (fst r) \<notin> valid_key ` key_request ` set (drop (i + 25) items)) (table w')"
      unfolding batch_def
      by (rule "1.IH" [OF True refl refl ok' [symmetric] refl faults' "1.prems"(2)])
    have drop_split: "set (drop i items) = set batch \<union> set (drop (i + 25) items)"
    proof -
      have "set (take 25 (drop i items) @ drop 25 (drop i items)) = set (drop i items)"
        by (simp only: append_take_drop_id)
      then show ?thesis by (simp add: batch_def slice_def add.commute)
    qed
    have plan: "batch_plan (length items - i) = length batch # batch_plan (length items - (i + 25))"
      using True batch_plan_step [of "length items - i"] len by simp
    show ?thesis
      unfolding step using IH' len True
      by (auto simp: w'_def batch_sizes_append plan reqs_def drop_split image_Un
               intro!: filter_cong)
  qed
qed

lemma key_text_ok_U1: "key_text_ok ''U1''"
  by (simp add: key_text_ok_def)

lemma ddb_query_keys:
  assumes "ddb_faults w = []" and "key_text_ok userId"
  shows "ddb_query userId (Some [(''#ts'', ''timestamp'')]) [] True
            (Some [''userId'', ''timestamp'']) w =
           (Inr (key_items userId w),
            w\<lparr>ddb_log := ddb_log w @
                 [QueryCommand userId (Some [(''#ts'', ''timestamp'')]) [] True
                    (Some [''userId'', ''timestamp''])]\<rparr>)"
  using assms
  by (simp add: ddb_query_def ddb_send_def ddb_call_def key_items_def first_page_def Let_def
        comp_def)

lemma key_request_item:
  "key_request (project [''userId'', ''timestamp''] (item_of r)) =
     (Some (JStr (fst (fst r))), Some (JNum (snd (fst r))))"
  by (simp add: key_request_def item_of_def project_def)

lemma first_page_owner: "r \<in> set (first_page userId forward w) \<Longrightarrow> fst (fst r) = userId"
  by (auto simp: first_page_def Let_def dest!: in_set_takeD split: if_splits)

lemma first_page_rows: "set (first_page userId forward w) \<subseteq> set (owner_rows userId w)"
  by (auto simp: first_page_def owner_rows_def Let_def dest!: in_set_takeD split: if_splits)

lemma first_page_keys:
  assumes "\<forall>r \<in> set (table w). key_ok (fst (fst r)) (snd (fst r))"
    and "r \<in> set (first_page userId forward w)"
  shows "valid_key (key_request (project [''userId'', ''timestamp''] (item_of r))) = Some (fst r)"
    and "sendable_key (key_request (project [''userId'', ''timestamp''] (item_of r)))"
proof -
  have "r \<in> set (table w)"
    using first_page_rows [of userId forward w] assms(2) by (auto simp: owner_rows_def)
  with assms(1) have "key_ok (fst (fst r)) (snd (fst r))" by blast
  then show "valid_key (key_request (project [''userId'', ''timestamp''] (item_of r))) = Some (fst r)"
    and "sendable_key (key_request (project [''userId'', ''timestamp''] (item_of r)))"
    by (simp_all add: key_request_item key_ok_def)
qed

lemma valid_key_items:
  assumes "\<forall>r \<in> set (table w). key_ok (fst (fst r)) (snd (fst r))"
  shows "valid_key ` key_request ` set (key_items userId w) =
           Some ` fst ` set (first_page userId True w)"
  using first_page_keys(1) [OF assms, of _ userId True]
  by (auto simp: key_items_def image_image intro!: image_eqI)

text \<open>
  For an identified caller, a store that answers every call and a table whose rows
  have valid keys, the bulk delete answers 200 with \<open>deletedCount\<close> the number of rows on the first page of the
  owner's partition (0 when there are none), removes the rows under the keys of that
  page and no other, and sends its delete requests in batches of 25 and one last
  batch with the rest, each batch of at least 1 and at most 25 requests.
\<close>

lemma deleteRecommendations_first_page:
  assumes "sub ev = Some userId" and "key_text_ok userId" and "ddb_faults w = []"
    and "\<forall>r \<in> set (table w). key_ok (fst (fst r)) (snd (fst r))"
  shows "statusCode (fst (deleteRecommendations_handler B cfg ev w)) = 200
       \<and> get_member (payload (fst (deleteRecommendations_handler B cfg ev w))) ''deletedCount'' =
           Some (JNum (int (length (first_page userId True w))))
       \<and> table (snd (deleteRecommendations_handler B cfg ev w)) =
           filter (\<lambda>r. fst r \<notin> fst ` set (first_page userId True w)) (table w)
       \<and> batch_sizes (ddb_log (snd (deleteRecommendations_handler B cfg ev w))) =
           batch_sizes (ddb_log w) @ batch_plan (length (first_page userId True w))
       \<and> (\<forall>size \<in> set (batch_plan (length (first_page userId True w))). 0 < size \<and> size \<le> 25)"
proof -
  define w1 where "w1 = w\<lparr>ddb_log := ddb_log w @
                 [QueryCommand userId (Some [(''#ts'', ''timestamp'')]) [] True
                    (Some [''userId'', ''timestamp''])]\<rparr>"
  let ?items = "key_items userId w"
  let ?page = "first_page userId True w"
  have q: "ddb_query userId (Some [(''#ts'', ''timestamp'')]) [] True
             (Some [''userId'', ''timestamp'']) w = (Inr ?items, w1)"
    using assms(2,3) by (simp add: ddb_query_keys w1_def)
  have ne: "userId \<noteq> []"
    using assms(2) by (auto simp: key_text_ok_def)
  have len: "length ?items = length ?page"
    by (simp add: key_items_def)
  have bound: "\<forall>size \<in> set (batch_plan (length ?page)). 0 < size \<and> size \<le> 25"
    by (auto simp: batch_plan_def)
  show ?thesis
  proof (cases "length ?items = 0")
    case True
    then have "?page = []" using len by simp
    then show ?thesis
      using assms(1) ne True q
      by (simp add: deleteRecommendations_handler_def deleteRecommendations_try_def
            batch_plan_0 w1_def batch_sizes_append)
  next
    case False
    have valid: "\<forall>it \<in> set ?items. sendable_key (key_request it)"
      using first_page_keys(2) [OF assms(4), of _ userId True]
      by (auto simp: key_items_def)
    have f1: "ddb_faults w1 = []" using assms(3) by (simp add: w1_def)
    note run = delete_batches_run [OF f1 valid, of 0 0]
    obtain r w2 where d: "delete_batches ?items 0 0 w1 = (r, w2)"
      by (cases "delete_batches ?items 0 0 w1")
    with run have r: "r = Inr (length ?items)"
      and log: "batch_sizes (ddb_log w2) = batch_sizes (ddb_log w1) @ batch_plan (length ?items)"
      and tab: "table w2 = filter (\<lambda>r. Some (fst r) \<notin> valid_key ` key_request ` set ?items) (table w1)"
      by simp_all
    have tab': "table w2 = filter (\<lambda>r. fst r \<notin> fst ` set ?page) (table w)"
      using tab by (simp add: valid_key_items [OF assms(4)] w1_def image_iff)
    show ?thesis
      using assms(1) ne False q d r log tab' len bound
      by (simp add: deleteRecommendations_handler_def deleteRecommendations_try_def
            w1_def batch_sizes_append)
  qed
qed

text \<open>
  When the owner's partition fits into one page, that is every row of the owner:
  the count is the number of the owner's rows and exactly the rows of other owners
  remain.
\<close>

lemma first_page_whole:
  assumes "length (owner_rows userId w) \<le>
             page_rows w (sort_key (\<lambda>r. snd (fst r)) (owner_rows userId w))"
  shows "length (first_page userId True w) = length (owner_rows userId w)"
    and "set (first_page userId True w) = set (owner_rows userId w)"
  using assms by (simp_all add: first_page_def owner_rows_def Let_def)

lemma not_owner_rows:
  "filter (\<lambda>r. fst r \<notin> fst ` set (owner_rows userId w)) (table w) =
     filter (\<lambda>r. fst (fst r) \<noteq> userId) (table w)"
proof (rule filter_cong [OF refl])
  fix r assume r: "r \<in> set (table w)"
  show "(fst r \<notin> fst ` set (owner_rows userId w)) = (fst (fst r) \<noteq> userId)"
  proof
    assume "fst r \<notin> fst ` set (owner_rows userId w)"
    then have "r \<notin> set (owner_rows userId w)" by force
    with r show "fst (fst r) \<noteq> userId" by (simp add: owner_rows_def)
  next
    assume "fst (fst r) \<noteq> userId"
    then show "fst r \<notin> fst ` set (owner_rows userId w)"
      by (auto simp: owner_rows_def)
  qed
qed

lemma deleteRecommendations_one_page:
  assumes "sub ev = Some userId" and "key_text_ok userId" and "ddb_faults w = []"
    and "\<forall>r \<in> set (table w). key_ok (fst (fst r)) (snd (fst r))"
    and "length (owner_rows userId w) \<le>
           page_rows w (sort_key (\<lambda>r. snd (fst r)) (owner_rows userId w))"
  shows "statusCode (fst (deleteRecommendations_handler B cfg ev w)) = 200
       \<and> get_member (payload (fst (deleteRecommendations_handler B cfg ev w))) ''deletedCount'' =
           Some (JNum (int (length (owner_rows userId w))))
       \<and> table (snd (deleteRecommendations_handler B cfg ev w)) =
           filter (\<lambda>r. fst (fst r) \<noteq> userId) (table w)
       \<and> batch_sizes (ddb_log (snd (deleteRecommendations_handler B cfg ev w))) =
           batch_sizes (ddb_log w) @ batch_plan (length (owner_rows userId w))"
  using deleteRecommendations_first_page [OF assms(1-4), of B cfg]
  by (simp add: first_page_whole [OF assms(5)] not_owner_rows)

lemma rows57: "owner_rows ''U1'' (world_with fifty_seven) =
                map (\<lambda>t. ((''U1'', int t), [(''completed'', JBool False)])) [0..<57]"
    by (simp add: owner_rows_def world_with_def fifty_seven_def filter_map comp_def)

lemma others57: "filter (\<lambda>r. fst (fst r) \<noteq> ''U1'') (table (world_with fifty_seven)) =
                [((''U2'', 7), [(''completed'', JBool True)])]"
    by (simp add: world_with_def fifty_seven_def filter_map comp_def)

lemma plan57: "batch_plan 57 = [25, 25, 7]"
    by (simp add: batch_plan_def numeral_2_eq_2)

lemma keys57: "\<forall>r \<in> set fifty_seven. key_ok (fst (fst r)) (snd (fst r))"
proof -
  have "\<bar>int t\<bar> \<le> 9007199254740991" if "t < 57" for t
    using that by linarith
  then show ?thesis
    by (auto simp: fifty_seven_def key_ok_def key_text_ok_def)
qed

text \<open>
  The run of the specification: 57 records in a partition that fits into one page
  are deleted in three calls of 25, 25 and 7 requests.
\<close>

lemma deleteRecommendations_one_page_57:
  "statusCode (fst (deleteRecommendations_handler node dev (request None) (world_with fifty_seven))) = 200
   \<and> get_member (payload (fst (deleteRecommendations_handler node dev (request None)
         (world_with fifty_seven)))) ''deletedCount'' = Some (JNum 57)
   \<and> table (snd (deleteRecommendations_handler node dev (request None) (world_with fifty_seven))) =
       [((''U2'', 7), [(''completed'', JBool True)])]
   \<and> batch_sizes (ddb_log (snd (deleteRecommendations_handler node dev (request None)
         (world_with fifty_seven)))) = [25, 25, 7]"
proof -
  have sub: "sub (request None) = Some ''U1''" by (simp add: request_def)
  have faults: "ddb_faults (world_with fifty_seven) = []" by (simp add: world_with_def)
  have log: "batch_sizes (ddb_log (world_with fifty_seven)) = []" by (simp add: world_with_def)
  have len: "length (owner_rows ''U1'' (world_with fifty_seven)) = 57"
    by (simp only: rows57 length_map length_upt diff_zero)
  have page: "length (owner_rows ''U1'' (world_with fifty_seven)) \<le>
           page_rows (world_with fifty_seven)
             (sort_key (\<lambda>r. snd (fst r)) (owner_rows ''U1'' (world_with fifty_seven)))"
    by (simp add: world_with_def)
  have keys: "\<forall>r \<in> set (table (world_with fifty_seven)). key_ok (fst (fst r)) (snd (fst r))"
    using keys57 by (simp add: world_with_def)
  note t = deleteRecommendations_one_page [OF sub key_text_ok_U1 faults keys page, of node dev,
      unfolded len others57 plan57 log]
  show ?thesis using t by simp
qed

lemma sorted_rows: "sort_key (\<lambda>r. snd (fst r)) (map (\<lambda>t. ((u, int t), attrs)) [0..<n]) =
                      map (\<lambda>t. ((u, int t), attrs)) [0..<n]"
  by (rule sort_key_id_if_sorted) (simp add: comp_def sorted_map)

lemma page40: "first_page ''U1'' True long_history =
                 map (\<lambda>t. ((''U1'', int t), [(''completed'', JBool False)])) [0..<40]"
proof -
  have "filter (\<lambda>r. fst (fst r) = ''U1'') (table long_history) =
          map (\<lambda>t. ((''U1'', int t), [(''completed'', JBool False)])) [0..<57]"
    by (simp add: long_history_def world_with_def fifty_seven_def filter_map comp_def)
  then show ?thesis
    by (simp add: first_page_def Let_def sorted_rows take_map long_history_def)
qed

lemma behind40:
  "filter (\<lambda>r. fst r \<notin> fst ` set (first_page ''U1'' True long_history)) (table long_history) =
     map (\<lambda>t. ((''U1'', int t), [(''completed'', JBool False)])) [40..<57] @
     [((''U2'', 7), [(''completed'', JBool True)])]"
proof -
  let ?f = "\<lambda>t. ((''U1'', int t), [(''completed'', JBool False)])"
  have keys: "fst ` set (first_page ''U1'' True long_history) = (\<lambda>t. (''U1'', int t)) ` {0..<40}"
    by (simp only: page40 set_map image_image fst_conv set_upt)
  have tab: "table long_history = map ?f [0..<57] @ [((''U2'', 7), [(''completed'', JBool True)])]"
    by (simp add: long_history_def world_with_def fifty_seven_def)
  have split: "[0..<57] = [0..<40] @ [40..<57]"
    using upt_add_eq_append [of 0 40 17] by simp
  have b: "filter (\<lambda>t. \<not> t < 40) [0..<57] = [40..<57]"
    unfolding split by (simp add: filter_empty_conv filter_id_conv del: upt_rec_numeral)
  have a: "filter (\<lambda>r. fst r \<notin> (\<lambda>t. (''U1'', int t)) ` {0..<40}) (map ?f [0..<57]) =
             map ?f (filter (\<lambda>t. \<not> t < 40) [0..<57])"
  proof -
    have "(\<forall>xa \<in> {0..<40}. x \<noteq> xa) = (\<not> x < 40)" for x :: nat
      by auto
    then show ?thesis
      by (simp add: filter_map comp_def image_iff del: upt_rec_numeral)
  qed
  have c: "(''U2'', 7) \<notin> (\<lambda>t. (''U1'', int t)) ` {0..<40}"
    by auto
  show ?thesis
    unfolding keys tab filter_append a b using c by simp
qed

text \<open>
  Claim C8 at an owner whose records do not fit into one page of the key query: of
  the 57 records of owner \<open>U1\<close> the page holds 40. The handler sends the one
  query, deletes the 40 records of its answer in two calls of 25 and 15 requests, and
  answers 200 with \<open>deletedCount\<close> 40; 17 records of the owner remain in the
  table. The claim expects three calls (25, 25, 7), \<open>deletedCount\<close> 57 and no
  record left.
\<close>

theorem deleteRecommendations_stops_at_first_page:
  "length (owner_rows ''U1'' long_history) = 57
   \<and> statusCode (fst (deleteRecommendations_handler node dev (request None) long_history)) = 200
   \<and> get_member (payload (fst (deleteRecommendations_handler node dev (request None)
         long_history))) ''deletedCount'' = Some (JNum 40)
   \<and> batch_sizes (ddb_log (snd (deleteRecommendations_handler node dev (request None)
         long_history))) = [25, 15]
   \<and> length (owner_rows ''U1'' (snd (deleteRecommendations_handler node dev (request None)
         long_history))) = 17"
proof -
  have sub: "sub (request None) = Some ''U1''" by (simp add: request_def)
  have faults: "ddb_faults long_history = []" by (simp add: long_history_def world_with_def)
  have log: "batch_sizes (ddb_log long_history) = []" by (simp add: long_history_def world_with_def)
  have len: "length (first_page ''U1'' True long_history) = 40"
    by (simp only: page40 length_map length_upt diff_zero)
  have plan: "batch_plan 40 = [25, 15]"
    by (simp add: batch_plan_def)
  have all: "length (owner_rows ''U1'' long_history) = 57"
    by (simp add: owner_rows_def long_history_def world_with_def fifty_seven_def filter_map comp_def)
  have keys: "\<forall>r \<in> set (table long_history). key_ok (fst (fst r)) (snd (fst r))"
    using keys57 by (simp add: long_history_def world_with_def)
  note t = deleteRecommendations_first_page [OF sub key_text_ok_U1 faults keys, of node dev,
      unfolded len behind40 plan log]
  have left: "length (owner_rows ''U1'' (snd (deleteRecommendations_handler node dev (request None)
         long_history))) = 17"
    using t by (simp add: owner_rows_def filter_map comp_def)
  show ?thesis using t all left by simp
qed

section \<open>Properties of the update\<close>

lemma isArray_cases: "isArray v \<longleftrightarrow> (\<exists>xs. v = JArr xs)"
  by (cases v) simp_all

lemma map_of_rev_supplied: "map_of (rev (supplied_fields requestBody)) a = requested requestBody a"
  by (auto simp: supplied_fields_def requested_def isArray_cases split: option.splits json.splits)

lemma supplied_empty: "supplied_fields requestBody = [] \<longleftrightarrow> (\<forall>a. requested requestBody a = None)"
proof
  assume "supplied_fields requestBody = []"
  then show "\<forall>a. requested requestBody a = None"
    using map_of_rev_supplied [of requestBody] by simp
next
  assume "\<forall>a. requested requestBody a = None"
  then have "map_of (rev (supplied_fields requestBody)) = (\<lambda>a. None)"
    by (simp add: map_of_rev_supplied fun_eq_iff)
  then show "supplied_fields requestBody = []"
    by (metis map_of_eq_empty_iff rev_is_Nil_conv)
qed

lemma map_of_apply_sets:
  "map_of (apply_sets sets attrs) a =
     (case map_of (rev sets) a of Some v \<Rightarrow> Some v | None \<Rightarrow> map_of attrs a)"
proof (induction sets arbitrary: attrs)
  case Nil
  then show ?case by (simp add: apply_sets_def)
next
  case (Cons kv sets)
  obtain k v where kv: "kv = (k, v)" by (cases kv)
  have "apply_sets (kv # sets) attrs = apply_sets sets (AList.update k v attrs)"
    by (simp add: apply_sets_def kv)
  then show ?case
    using Cons.IH [of "AList.update k v attrs"]
    by (auto simp: kv update_conv' map_add_def split: option.splits)
qed

lemma map_of_updated_table:
  "map_of (map (\<lambda>r. if fst r = k then (k, f (snd r)) else r) rows) k' =
     (if k' = k then map_option f (map_of rows k) else map_of rows k')"
  by (induction rows) auto

lemma ddb_get_ok:
  assumes "ddb_faults w = []" and "key_ok userId t"
  shows "ddb_get (JStr userId, JNum t) w =
           (Inr (map_option (\<lambda>attrs. item_of ((userId, t), attrs)) (map_of (table w) (userId, t))),
            w\<lparr>ddb_log := ddb_log w @ [GetCommand (JStr userId, JNum t)]\<rparr>)"
  using assms by (auto simp: ddb_get_def ddb_send_def ddb_call_def key_ok_def split: option.splits)


lemma supplied_index_key:
  assumes "index_key_ok (requested requestBody ''feedbackType'')"
  shows "\<not> (\<exists>(a, v) \<in> set (supplied_fields requestBody @ [(''updatedAt'', u)]).
              a = ''feedbackType'' \<and> \<not> index_key_ok (Some v))"
  using assms
  by (auto simp: supplied_fields_def requested_def split: option.splits if_splits)

lemma supplied_marshallable:
  assumes "\<forall>a v. requested requestBody a = Some v \<longrightarrow> marshallable v"
  shows "\<forall>v \<in> set (map snd (supplied_fields requestBody @ [(''updatedAt'', JStr u)])).
           marshallable v"
proof -
  have "marshallable v" if "(a, v) \<in> set (supplied_fields requestBody)" for a v
  proof -
    from that have "requested requestBody a = Some v"
      by (auto simp: supplied_fields_def requested_def isArray_cases
               split: option.splits if_splits)
    with assms show ?thesis by blast
  qed
  then show ?thesis by auto
qed

lemma ddb_update_ok:
  assumes "ddb_faults w = []" and "key_ok userId t" and "map_of (table w) (userId, t) = Some attrs"
    and "\<not> (\<exists>(a, v) \<in> set sets. a = ''feedbackType'' \<and> \<not> index_key_ok (Some v))"
    and "\<forall>v \<in> set (map snd sets). marshallable v"
  shows "ddb_update (JStr userId, JNum t) sets w =
           (Inr (item_of ((userId, t), apply_sets sets attrs)),
            w\<lparr>ddb_log := ddb_log w @ [UpdateCommand (JStr userId, JNum t) sets],
               table := map (\<lambda>r. if fst r = (userId, t) then ((userId, t), apply_sets sets (snd r)) else r)
                            (table w)\<rparr>)"
proof -
  have "\<not> (\<exists>v \<in> set ([fst (JStr userId, JNum t), snd (JStr userId, JNum t)] @ map snd sets).
              \<not> marshallable v)"
    using assms(2,5) by (auto simp: key_ok_def)
  then show ?thesis
    using assms(1-4)
    by (simp add: ddb_update_def ddb_send_def ddb_call_def key_ok_def del: set_append set_map)
qed

lemma update_request_facts:
  "sub (update_request doc) = Some ''U1''"
  "path_timestamp (update_request doc) = Some ''1001''"
  "parseInt (node_for doc) ''1001'' = Some 1001"
  by (simp_all add: update_request_def node_for_def)

lemma update_request_body:
  "JSON_parse (node_for (JObj kvs)) (body_text (update_request (JObj kvs))) = Some (JObj kvs)"
  using stringify_object_not_empty [of kvs]
  by (simp add: node_for_def body_text_def update_request_def del: stringify.simps)

lemma key_ok_1001: "key_ok ''U1'' 1001" "key_text_ok ''U1''"
  by (simp_all add: key_ok_def key_text_ok_def)

lemma one_record_world:
  "ddb_faults (world_with one_record) = []"
  "table (world_with one_record) = one_record"
  "clock (world_with one_record) 0 = 86400000"
  by (simp_all add: world_with_def)

text \<open>
  Claim C4, as stated, fails: for an existing record and a body whose only member is
  the whitelisted \<open>tags\<close> with a text as value, the answer is 400 and the
  table is unchanged; the member is present, so the claim promises the update.
\<close>

theorem updateRecommendation_ignores_tags_text:
  "get_member tags_as_text ''tags'' = Some (JStr ''urgent'')
   \<and> map_of (table (world_with one_record)) (''U1'', 1001) \<noteq> None
   \<and> statusCode (fst (updateRecommendation_handler (node_for tags_as_text) dev
        (update_request tags_as_text) (world_with one_record))) = 400
   \<and> table (snd (updateRecommendation_handler (node_for tags_as_text) dev
        (update_request tags_as_text) (world_with one_record))) = one_record"
proof -
  have parse: "JSON_parse (node_for tags_as_text) (body_text (update_request tags_as_text)) =
                 Some tags_as_text"
    unfolding tags_as_text_def by (rule update_request_body)
  have row: "map_of one_record (''U1'', 1001) \<noteq> None"
    by (simp add: one_record_def)
  have get: "ddb_get (JStr ''U1'', JNum 1001) (world_with one_record) =
           (Inr (map_option (\<lambda>attrs. item_of ((''U1'', 1001), attrs))
                   (map_of (table (world_with one_record)) (''U1'', 1001))),
            (world_with one_record)\<lparr>ddb_log := ddb_log (world_with one_record) @
                                        [GetCommand (JStr ''U1'', JNum 1001)]\<rparr>)"
    by (rule ddb_get_ok) (simp_all add: one_record_world key_ok_1001)
  have none: "supplied_fields tags_as_text = []"
    by (simp add: supplied_fields_def tags_as_text_def)
  have "statusCode (fst (updateRecommendation_handler (node_for tags_as_text) dev
          (update_request tags_as_text) (world_with one_record))) = 400
      \<and> table (snd (updateRecommendation_handler (node_for tags_as_text) dev
          (update_request tags_as_text) (world_with one_record))) = one_record"
    using row
    by (auto simp: updateRecommendation_handler_def updateRecommendation_try_def
          update_request_facts parse get none one_record_world Date_now_def error_response_def
          tags_as_text_def [symmetric])
       (simp_all add: tags_as_text_def)
  moreover have "get_member tags_as_text ''tags'' = Some (JStr ''urgent'')"
    by (simp add: tags_as_text_def)
  ultimately show ?thesis using row by (simp add: one_record_world)
qed

text \<open>
  Claim C4, amended. For an identified caller, a path timestamp that parses to a
  number other than 0 (the two being a key the store takes), a body that is a JSON
  document and a store that answers every call: if no record is stored under (owner, timestamp) the answer is 404 and the
  table is unchanged. If there is one and the body is a document other than the
  literal \<open>null\<close>: when it supplies none of \<open>completed\<close>,
  \<open>recommendations\<close>, \<open>feedbackType\<close> or an array \<open>tags\<close>, the
  answer is 400 and the table is unchanged; when it supplies one, the supplied values
  can be sent and the \<open>feedbackType\<close>, if supplied, is a text that can be a key
  of the index, the answer is 200 with the whole new record, in which \<open>updatedAt\<close> is the current time, each supplied
  field has the supplied value and every other attribute is as before, and the table
  holds the new record under the key and is unchanged elsewhere. Nothing is stated
  for the body \<open>null\<close> on an existing record, nor for supplied values that the
  document client or the store refuses.
\<close>

theorem updateRecommendation_outcomes:
  assumes "sub ev = Some userId" and "key_ok userId timestamp"
    and "path_timestamp ev = Some ts_text" and "parseInt B ts_text = Some timestamp"
    and "timestamp \<noteq> 0"
    and "JSON_parse B (body_text ev) = Some requestBody"
    and "ddb_faults w = []"
  shows "(map_of (table w) (userId, timestamp) = None \<longrightarrow>
            statusCode (fst (updateRecommendation_handler B cfg ev w)) = 404
          \<and> table (snd (updateRecommendation_handler B cfg ev w)) = table w)
       \<and> (\<forall>attrs. map_of (table w) (userId, timestamp) = Some attrs \<and> requestBody \<noteq> JNull
            \<and> (\<forall>a. requested requestBody a = None) \<longrightarrow>
            statusCode (fst (updateRecommendation_handler B cfg ev w)) = 400
          \<and> table (snd (updateRecommendation_handler B cfg ev w)) = table w)
       \<and> (\<forall>attrs. map_of (table w) (userId, timestamp) = Some attrs
            \<and> (\<exists>a. requested requestBody a \<noteq> None)
            \<and> (\<forall>a v. requested requestBody a = Some v \<longrightarrow> marshallable v)
            \<and> index_key_ok (requested requestBody ''feedbackType'') \<longrightarrow>
            (\<exists>stored.
               fst (updateRecommendation_handler B cfg ev w) =
                 \<lparr>statusCode = 200,
                  payload = JObj [(''message'', JStr ''Recommendation updated successfully''),
                                  (''recommendation'', JObj (item_of ((userId, timestamp), stored)))]\<rparr>
             \<and> (\<forall>a. map_of (item_of ((userId, timestamp), stored)) a =
                    (if a = ''updatedAt'' then Some (JStr (toISOString B (clock w 0)))
                     else if requested requestBody a \<noteq> None then requested requestBody a
                     else map_of (item_of ((userId, timestamp), attrs)) a))
             \<and> (\<forall>k. map_of (table (snd (updateRecommendation_handler B cfg ev w))) k =
                    (if k = (userId, timestamp) then Some stored else map_of (table w) k))))"
proof -
  define w1 where "w1 = w\<lparr>ddb_log := ddb_log w @ [GetCommand (JStr userId, JNum timestamp)]\<rparr>"
  have ne: "userId \<noteq> []"
    using assms(2) by (auto simp: key_ok_def key_text_ok_def)
  have get: "ddb_get (JStr userId, JNum timestamp) w =
           (Inr (map_option (\<lambda>attrs. item_of ((userId, timestamp), attrs))
                   (map_of (table w) (userId, timestamp))), w1)"
    using assms(2,7) by (simp add: ddb_get_ok w1_def)
  have not_found: "map_of (table w) (userId, timestamp) = None \<Longrightarrow>
            statusCode (fst (updateRecommendation_handler B cfg ev w)) = 404
          \<and> table (snd (updateRecommendation_handler B cfg ev w)) = table w"
    using assms ne get
    by (simp add: updateRecommendation_handler_def updateRecommendation_try_def
          error_response_def w1_def)
  have bad: "statusCode (fst (updateRecommendation_handler B cfg ev w)) = 400
          \<and> table (snd (updateRecommendation_handler B cfg ev w)) = table w"
    if "map_of (table w) (userId, timestamp) = Some attrs" and "requestBody \<noteq> JNull"
      and "\<forall>a. requested requestBody a = None" for attrs
  proof -
    have "supplied_fields requestBody = []" using that(3) by (simp add: supplied_empty)
    then show ?thesis
      using assms ne get that(1,2)
      by (simp add: updateRecommendation_handler_def updateRecommendation_try_def
            error_response_def w1_def Date_now_def)
  qed
  have good: "\<exists>stored.
               fst (updateRecommendation_handler B cfg ev w) =
                 \<lparr>statusCode = 200,
                  payload = JObj [(''message'', JStr ''Recommendation updated successfully''),
                                  (''recommendation'', JObj (item_of ((userId, timestamp), stored)))]\<rparr>
             \<and> (\<forall>a. map_of (item_of ((userId, timestamp), stored)) a =
                    (if a = ''updatedAt'' then Some (JStr (toISOString B (clock w 0)))
                     else if requested requestBody a \<noteq> None then requested requestBody a
                     else map_of (item_of ((userId, timestamp), attrs)) a))
             \<and> (\<forall>k. map_of (table (snd (updateRecommendation_handler B cfg ev w))) k =
                    (if k = (userId, timestamp) then Some stored else map_of (table w) k))"
    if row: "map_of (table w) (userId, timestamp) = Some attrs"
      and some: "\<exists>a. requested requestBody a \<noteq> None"
      and sent: "\<forall>a v. requested requestBody a = Some v \<longrightarrow> marshallable v"
      and category: "index_key_ok (requested requestBody ''feedbackType'')" for attrs
  proof -
    have nn: "requestBody \<noteq> JNull"
      using some by (auto simp: requested_def split: if_splits)
    define sets where "sets = supplied_fields requestBody @
                                [(''updatedAt'', JStr (toISOString B (clock w 0)))]"
    define w2 where "w2 = w1\<lparr>clock := (\<lambda>n. clock w1 (Suc n))\<rparr>"
    define stored where "stored = apply_sets sets attrs"
    have some_fields: "supplied_fields requestBody \<noteq> []" using some by (simp add: supplied_empty)
    have upd: "ddb_update (JStr userId, JNum timestamp) sets w2 =
                 (Inr (item_of ((userId, timestamp), stored)),
                  w2\<lparr>ddb_log := ddb_log w2 @ [UpdateCommand (JStr userId, JNum timestamp) sets],
                     table := map (\<lambda>r. if fst r = (userId, timestamp)
                                        then ((userId, timestamp), apply_sets sets (snd r)) else r)
                                  (table w2)\<rparr>)"
      unfolding stored_def sets_def
      by (rule ddb_update_ok [OF _ _ _ supplied_index_key [OF category]
                                 supplied_marshallable [OF sent]])
         (use assms(2,7) row in \<open>simp_all add: w2_def w1_def\<close>)
    have resp: "updateRecommendation_handler B cfg ev w =
                 (\<lparr>statusCode = 200,
                   payload = JObj [(''message'', JStr ''Recommendation updated successfully''),
                                   (''recommendation'', JObj (item_of ((userId, timestamp), stored)))]\<rparr>,
                  w2\<lparr>ddb_log := ddb_log w2 @ [UpdateCommand (JStr userId, JNum timestamp) sets],
                     table := map (\<lambda>r. if fst r = (userId, timestamp)
                                        then ((userId, timestamp), apply_sets sets (snd r)) else r)
                                  (table w2)\<rparr>)"
      using assms ne get row nn some_fields upd
      by (simp add: updateRecommendation_handler_def updateRecommendation_try_def
            Date_now_def sets_def [symmetric] w2_def [symmetric] w1_def [symmetric])
        (simp add: w1_def sets_def w2_def)
    have attrs_new: "map_of stored a =
                    (if a = ''updatedAt'' then Some (JStr (toISOString B (clock w 0)))
                     else if requested requestBody a \<noteq> None then requested requestBody a
                     else map_of attrs a)" for a
      by (auto simp: stored_def map_of_apply_sets sets_def map_of_rev_supplied split: option.splits)
    have key_free: "requested requestBody ''userId'' = None" "requested requestBody ''timestamp'' = None"
      by (simp_all add: requested_def)
    have new: "map_of (item_of ((userId, timestamp), stored)) a =
                    (if a = ''updatedAt'' then Some (JStr (toISOString B (clock w 0)))
                     else if requested requestBody a \<noteq> None then requested requestBody a
                     else map_of (item_of ((userId, timestamp), attrs)) a)" for a
      using attrs_new [of a] key_free by (auto simp: item_of_def)
    have tab: "map_of (table (snd (updateRecommendation_handler B cfg ev w))) k =
                    (if k = (userId, timestamp) then Some stored else map_of (table w) k)" for k
      using row by (simp add: resp map_of_updated_table w2_def w1_def stored_def)
    have "fst (updateRecommendation_handler B cfg ev w) =
                 \<lparr>statusCode = 200,
                  payload = JObj [(''message'', JStr ''Recommendation updated successfully''),
                                  (''recommendation'', JObj (item_of ((userId, timestamp), stored)))]\<rparr>"
      by (simp add: resp)
    with new tab show ?thesis by blast
  qed
  show ?thesis
    using not_found bad good by blast
qed


theorem updateRecommendation_outcomes_witness:
  "\<exists>stored.
     fst (updateRecommendation_handler (node_for mark_completed) dev
            (update_request mark_completed) (world_with one_record)) =
       \<lparr>statusCode = 200,
        payload = JObj [(''message'', JStr ''Recommendation updated successfully''),
                        (''recommendation'', JObj (item_of ((''U1'', 1001), stored)))]\<rparr>
   \<and> map_of (item_of ((''U1'', 1001), stored)) ''completed'' = Some (JBool True)
   \<and> map_of (item_of ((''U1'', 1001), stored)) ''updatedAt'' = Some (JStr ''1970-01-02T00:00:00.000Z'')
   \<and> map_of (item_of ((''U1'', 1001), stored)) ''originalFeedback'' =
        Some (JStr ''Response times are slow'')
   \<and> map_of (table (snd (updateRecommendation_handler (node_for mark_completed) dev
            (update_request mark_completed) (world_with one_record)))) (''U1'', 1001) = Some stored
   \<and> statusCode (fst (updateRecommendation_handler (node_for mark_completed) dev
            (update_request mark_completed) (world_with []))) = 404
   \<and> statusCode (fst (updateRecommendation_handler (node_for tags_as_text) dev
            (update_request tags_as_text) (world_with one_record))) = 400"
proof -
  have parse: "JSON_parse (node_for mark_completed) (body_text (update_request mark_completed)) =
                 Some mark_completed"
    unfolding mark_completed_def by (rule update_request_body)
  have parse': "JSON_parse (node_for tags_as_text) (body_text (update_request tags_as_text)) =
                 Some tags_as_text"
    unfolding tags_as_text_def by (rule update_request_body)
  have empty: "ddb_faults (world_with []) = []" "map_of (table (world_with [])) (''U1'', 1001) = None"
    by (simp_all add: world_with_def)
  have none: "tags_as_text \<noteq> JNull" "\<forall>a. requested tags_as_text a = None"
    by (simp_all add: tags_as_text_def requested_def)
  have req: "requested mark_completed ''completed'' = Some (JBool True)"
            "requested mark_completed ''updatedAt'' = None"
            "requested mark_completed ''originalFeedback'' = None"
    by (simp_all add: requested_def mark_completed_def)
  have iso: "toISOString (node_for mark_completed) 86400000 = ''1970-01-02T00:00:00.000Z''"
    by (simp add: node_for_def node_def)
  have row: "map_of one_record (''U1'', 1001) = Some slow_responses"
    by (simp add: one_record_def)
  have old: "map_of (item_of ((''U1'', 1001), slow_responses)) ''originalFeedback'' =
               Some (JStr ''Response times are slow'')"
    by (simp add: item_of_def slow_responses_def)
  have cat: "index_key_ok (requested mark_completed ''feedbackType'')"
    by (simp add: requested_def mark_completed_def)
  have sent: "\<forall>a v. requested mark_completed a = Some v \<longrightarrow> marshallable v"
    by (auto simp: requested_def mark_completed_def split: if_splits)
  have "(1001::int) \<noteq> 0" by simp
  note t = updateRecommendation_outcomes
             [OF update_request_facts(1) key_ok_1001(1) update_request_facts(2,3)
                 \<open>(1001::int) \<noteq> 0\<close> parse one_record_world(1),
              of dev, unfolded one_record_world, THEN conjunct2, THEN conjunct2, rule_format,
              of slow_responses]
  note t404 = updateRecommendation_outcomes
             [OF update_request_facts(1) key_ok_1001(1) update_request_facts(2,3)
                 \<open>(1001::int) \<noteq> 0\<close> parse empty(1),
              of dev, THEN conjunct1, rule_format, OF empty(2), THEN conjunct1]
  note t400 = updateRecommendation_outcomes
             [OF update_request_facts(1) key_ok_1001(1) update_request_facts(2,3)
                 \<open>(1001::int) \<noteq> 0\<close> parse' one_record_world(1),
              of dev, unfolded one_record_world, THEN conjunct2, THEN conjunct1, rule_format,
              of slow_responses, OF conjI [OF row conjI [OF none]], THEN conjunct1]
  from req(1) row cat sent t obtain stored where
    r: "fst (updateRecommendation_handler (node_for mark_completed) dev
                  (update_request mark_completed) (world_with one_record)) =
             \<lparr>statusCode = 200,
              payload = JObj [(''message'', JStr ''Recommendation updated successfully''),
                              (''recommendation'', JObj (item_of ((''U1'', 1001), stored)))]\<rparr>"
    and a: "\<And>a. map_of (item_of ((''U1'', 1001), stored)) a =
                (if a = ''updatedAt'' then Some (JStr (toISOString (node_for mark_completed) 86400000))
                 else if requested mark_completed a \<noteq> None then requested mark_completed a
                 else map_of (item_of ((''U1'', 1001), slow_responses)) a)"
    and k: "\<And>k. map_of (table (snd (updateRecommendation_handler (node_for mark_completed) dev
                  (update_request mark_completed) (world_with one_record)))) k =
                (if k = (''U1'', 1001) then Some stored else map_of one_record k)"
    by blast
  have "map_of (item_of ((''U1'', 1001), stored)) ''completed'' = Some (JBool True)"
    using a [of "''completed''"] req by simp
  moreover have "map_of (item_of ((''U1'', 1001), stored)) ''updatedAt'' =
                   Some (JStr ''1970-01-02T00:00:00.000Z'')"
    using a [of "''updatedAt''"] iso by simp
  moreover have "map_of (item_of ((''U1'', 1001), stored)) ''originalFeedback'' =
        Some (JStr ''Response times are slow'')"
    using a [of "''originalFeedback''"] req old by simp
  ultimately show ?thesis using r k [of "(''U1'', 1001)"] t404 t400 by auto
qed

text \<open>
  The two requests the amended claim leaves out, on the existing record: the body
  \<open>null\<close> (the read of \<open>requestBody.completed\<close> throws) and a body whose
  \<open>feedbackType\<close> is the number 5 (the store rejects the assignment to the key
  of its index) are both answered with 500, and the table is unchanged.
\<close>

lemma updateRecommendation_null_body:
  "statusCode (fst (updateRecommendation_handler (node_for JNull) dev
        (update_request JNull) (world_with one_record))) = 500
   \<and> table (snd (updateRecommendation_handler (node_for JNull) dev
        (update_request JNull) (world_with one_record))) = one_record"
  by (simp add: updateRecommendation_handler_def updateRecommendation_try_def
        update_request_def node_for_def body_text_def ddb_get_def ddb_send_def ddb_call_def
        world_with_def one_record_def internal_error_def dev_def key_ok_1001)

lemma updateRecommendation_category_number:
  "statusCode (fst (updateRecommendation_handler (node_for category_number) dev
        (update_request category_number) (world_with one_record))) = 500
   \<and> table (snd (updateRecommendation_handler (node_for category_number) dev
        (update_request category_number) (world_with one_record))) = one_record"
proof -
  have parse: "JSON_parse (node_for category_number) (body_text (update_request category_number)) =
                 Some category_number"
    unfolding category_number_def by (rule update_request_body)
  show ?thesis
    by (simp add: updateRecommendation_handler_def updateRecommendation_try_def
          update_request_facts parse ddb_get_def ddb_send_def ddb_call_def ddb_update_def
          Date_now_def world_with_def one_record_def internal_error_def dev_def key_ok_1001)
       (simp add: category_number_def supplied_fields_def)
qed

section \<open>Properties of the search\<close>

lemma filter_items_Inr:
  "filter_items f xs = Inr ys \<Longrightarrow> ys = filter (\<lambda>x. f x = Inr True) xs"
  by (induction xs arbitrary: ys) (auto split: sum.splits)

lemma from_filter_holds:
  "(\<forall>c \<in> set (date_filter B Ge d). holds it c) \<longleftrightarrow>
   (\<forall>text t. d = Some text \<and> text \<noteq> [] \<and> Date_getTime B text = Some t
        \<longrightarrow> (\<exists>x. submitted_at it = Some x \<and> t \<le> x))"
  by (cases d; cases "the d = []"; cases "Date_getTime B (the d)")
     (auto simp: date_filter_def submitted_at_def split: option.splits json.splits)

lemma to_filter_holds:
  "(\<forall>c \<in> set (date_filter B Le d). holds it c) \<longleftrightarrow>
   (\<forall>text t. d = Some text \<and> text \<noteq> [] \<and> Date_getTime B text = Some t
        \<longrightarrow> (\<exists>x. submitted_at it = Some x \<and> x \<le> t))"
  by (cases d; cases "the d = []"; cases "Date_getTime B (the d)")
     (auto simp: date_filter_def submitted_at_def split: option.splits json.splits)

lemma feedbackType_filter_holds:
  "(\<forall>c \<in> set (feedbackType_filter f). holds it c) \<longleftrightarrow>
   (\<forall>c. f = Some c \<and> c \<noteq> [] \<longrightarrow> map_of it ''feedbackType'' = Some (JStr c))"
  by (cases f; cases "the f = []") (auto simp: feedbackType_filter_def)

lemma completed_filter_holds:
  "(\<forall>c \<in> set (completed_filter f). holds it c) \<longleftrightarrow>
   (\<forall>c. f = Some c \<longrightarrow> map_of it ''completed'' = Some (JBool (c = ''true'')))"
  by (cases f) (auto simp: completed_filter_def)

lemma tagArray_Nil: "tagArray [] = []"
  by (simp add: tagArray_def trim_Nil)

lemma contains_has_tag:
  assumes "\<forall>s. map_of it ''tags'' \<noteq> Some (JStr s)"
  shows "contains it ''tags'' (JStr tag) \<longleftrightarrow> has_tag it tag"
  using assms by (auto simp: has_tag_def contains_def split: option.splits json.splits)

lemma tags_filter_holds:
  assumes "\<forall>s. map_of it ''tags'' \<noteq> Some (JStr s)"
  shows "(\<forall>c \<in> set (tags_filter f). holds it c) \<longleftrightarrow>
   (\<forall>ts. f = Some ts \<and> tagArray ts \<noteq> [] \<longrightarrow> (\<exists>tag \<in> set (tagArray ts). has_tag it tag))"
  using contains_has_tag [OF assms]
  by (cases f; cases "the f = []"; cases "tagArray (the f) = []")
     (auto simp: tags_filter_def tagArray_Nil)

lemma filters_hold:
  assumes "\<forall>s. map_of it ''tags'' \<noteq> Some (JStr s)"
  shows "(\<forall>c \<in> set (date_filter B Ge (map_of q ''fromDate'') @ date_filter B Le (map_of q ''toDate'') @
                  feedbackType_filter (map_of q ''feedbackType'') @
                  completed_filter (map_of q ''completed'') @ tags_filter (map_of q ''tags'')).
            holds it c) \<longleftrightarrow> matches_filters B q it"
  unfolding set_append ball_Un from_filter_holds to_filter_holds feedbackType_filter_holds
    completed_filter_holds tags_filter_holds [OF assms] matches_filters_def
  by simp


lemma expression_names_empty: "expression_names conds = [] \<longleftrightarrow> conds = []"
proof -
  have "fold (\<lambda>c. AList.update (CHR ''#'' # attribute c) (attribute c)) conds names \<noteq> []"
    if "names \<noteq> [] \<or> conds \<noteq> []" for names :: "(string \<times> string) list"
    using that
  proof (induction conds arbitrary: names)
    case (Cons c conds)
    have "AList.update (CHR ''#'' # attribute c) (attribute c) names \<noteq> []"
      by (cases names) auto
    then show ?case using Cons.IH by simp
  qed simp
  from this [of "[]"] show ?thesis
    by (auto simp: expression_names_def)
qed

lemma first_page_log [simp]:
  "first_page owner forward (w\<lparr>ddb_log := l\<rparr>) = first_page owner forward w"
  "first_page owner forward (w\<lparr>ddb_faults := f\<rparr>) = first_page owner forward w"
  by (simp_all add: first_page_def)

lemma ddb_query_items:
  assumes "ddb_query owner names conds False None w = (Inr items, w1)"
  shows "items = filter (\<lambda>it. \<forall>c \<in> set conds. holds it c) (map item_of (first_page owner False w))"
    and "names \<noteq> Some []" and "\<forall>c \<in> set conds. attribute c \<notin> {''userId'', ''timestamp''}"
  using assms
  by (auto simp: ddb_query_def ddb_send_def ddb_call_def Let_def
           split: list.splits option.splits if_splits)

lemma search_text_items:
  assumes "(case search of
              None \<Rightarrow> Inr items
            | Some text \<Rightarrow>
                if text \<noteq> [] \<and> trim text \<noteq> []
                then filter_items (text_matches B (toLowerCase B text)) items
                else Inr items) = Inr recs"
  shows "set recs = {it \<in> set items.
           \<forall>text. search = Some text \<and> text \<noteq> [] \<and> trim text \<noteq> []
              \<longrightarrow> text_matches B (toLowerCase B text) it = Inr True}"
  using assms
  by (cases search; cases "the search \<noteq> [] \<and> trim (the search) \<noteq> []")
     (auto dest!: filter_items_Inr)

lemma searchRecommendations_ok:
  assumes "sub ev = Some userId"
    and "statusCode (fst (searchRecommendations_handler B cfg ev w)) = 200"
  shows "\<exists>items w1 recs.
           ddb_query userId (Some (expression_names (search_conditions B (query_params ev))))
             (search_conditions B (query_params ev)) False None w = (Inr items, w1)
         \<and> (case map_of (query_params ev) ''search'' of
              None \<Rightarrow> Inr items
            | Some text \<Rightarrow>
                if text \<noteq> [] \<and> trim text \<noteq> []
                then filter_items (text_matches B (toLowerCase B text)) items
                else Inr items) = Inr recs
         \<and> returned (fst (searchRecommendations_handler B cfg ev w)) = map JObj recs"
proof -
  let ?q = "ddb_query userId (Some (expression_names (search_conditions B (query_params ev))))
              (search_conditions B (query_params ev)) False None w"
  let ?t = "\<lambda>items. (case map_of (query_params ev) ''search'' of
              None \<Rightarrow> Inr items
            | Some text \<Rightarrow>
                if text \<noteq> [] \<and> trim text \<noteq> []
                then filter_items (text_matches B (toLowerCase B text)) items
                else Inr items)"
  have ne: "userId \<noteq> []"
    using assms
    by (auto simp: searchRecommendations_handler_def searchRecommendations_try_def
          unauthorized_def error_response_def)
  obtain res w1 where q: "?q = (res, w1)" by (cases ?q)
  have "\<exists>items. res = Inr items"
  proof (cases res)
    case (Inl e)
    with assms ne q show ?thesis
      by (simp add: searchRecommendations_handler_def searchRecommendations_try_def
            search_conditions_def Let_def internal_error_def)
  qed simp
  then obtain items where res: "res = Inr items" ..
  have "\<exists>recs. ?t items = Inr recs"
  proof (cases "?t items")
    case (Inl e)
    with assms ne q res show ?thesis
      by (simp add: searchRecommendations_handler_def searchRecommendations_try_def
            search_conditions_def Let_def internal_error_def)
  qed simp
  then obtain recs where t: "?t items = Inr recs" ..
  have "returned (fst (searchRecommendations_handler B cfg ev w)) = map JObj recs"
    using assms(1) ne q res t
    by (simp add: searchRecommendations_handler_def searchRecommendations_try_def
          search_conditions_def Let_def returned_def)
  with q res t show ?thesis by blast
qed

lemma tagArray_a_b: "tagArray ''a,b'' = [''a'', ''b'']"
  by (simp add: tagArray_def trim_def is_space_def)

text \<open>
  What a search that is answered with 200 returns. The request of an identified
  caller carries the query parameters \<open>q\<close>; a record whose \<open>tags\<close>
  attribute is not a text is returned if and only if it is on the first page of the
  owner's partition, newest first, and satisfies every filter of \<open>q\<close> that is
  present and the text search: the filters are combined with AND, and the tags filter
  holds exactly when the record contains at least one of the listed tags. Such a
  search has no parsable date bound and at least one of the category, the completion
  flag and the tags.
\<close>

lemma searchRecommendations_returned:
  assumes "sub ev = Some userId"
    and "queryStringParameters ev = Some q"
    and "statusCode (fst (searchRecommendations_handler B cfg ev w)) = 200"
    and "\<forall>s. map_of it ''tags'' \<noteq> Some (JStr s)"
  shows "JObj it \<in> set (returned (fst (searchRecommendations_handler B cfg ev w))) \<longleftrightarrow>
           it \<in> item_of ` set (first_page userId False w)
         \<and> matches_filters B q it
         \<and> matches_text B q it"
    and "date_filter B Ge (map_of q ''fromDate'') = []"
    and "date_filter B Le (map_of q ''toDate'') = []"
    and "feedbackType_filter (map_of q ''feedbackType'') @ completed_filter (map_of q ''completed'')
           @ tags_filter (map_of q ''tags'') \<noteq> []"
proof -
  have qp: "query_params ev = q"
    using assms(2) by (simp add: query_params_def)
  obtain items w1 recs where
    q: "ddb_query userId (Some (expression_names (search_conditions B q)))
          (search_conditions B q) False None w = (Inr items, w1)"
    and t: "(case map_of q ''search'' of
              None \<Rightarrow> Inr items
            | Some text \<Rightarrow>
                if text \<noteq> [] \<and> trim text \<noteq> []
                then filter_items (text_matches B (toLowerCase B text)) items
                else Inr items) = Inr recs"
    and r: "returned (fst (searchRecommendations_handler B cfg ev w)) = map JObj recs"
    using searchRecommendations_ok [OF assms(1,3)] unfolding qp by blast
  note items = ddb_query_items [OF q]
  have "JObj it \<in> set (map JObj recs) \<longleftrightarrow> it \<in> set recs" by auto
  also have "\<dots> \<longleftrightarrow> it \<in> set items \<and> matches_text B q it"
    unfolding search_text_items [OF t] matches_text_def by simp
  also have "it \<in> set items \<longleftrightarrow>
      it \<in> item_of ` set (first_page userId False w) \<and> matches_filters B q it"
    unfolding items(1) search_conditions_def
    using filters_hold [OF assms(4), of B q] by auto
  finally show "JObj it \<in> set (returned (fst (searchRecommendations_handler B cfg ev w))) \<longleftrightarrow>
           it \<in> item_of ` set (first_page userId False w)
         \<and> matches_filters B q it
         \<and> matches_text B q it"
    unfolding r by blast
  have no_key: "\<forall>c \<in> set (search_conditions B q). attribute c \<noteq> ''timestamp''"
    using items(3) by auto
  have dates: "date_filter B cmp d = []"
    if "\<forall>c \<in> set (date_filter B cmp d). attribute c \<noteq> ''timestamp''"
      and "cmp = Ge \<or> cmp = Le" for cmp d
    using that
    by (cases d; cases "the d = []"; cases "Date_getTime B (the d)")
       (auto simp: date_filter_def)
  show "date_filter B Ge (map_of q ''fromDate'') = []"
    using no_key by (intro dates) (simp_all add: search_conditions_def)
  show "date_filter B Le (map_of q ''toDate'') = []"
    using no_key by (intro dates) (simp_all add: search_conditions_def)
  then show "feedbackType_filter (map_of q ''feedbackType'') @ completed_filter (map_of q ''completed'')
           @ tags_filter (map_of q ''tags'') \<noteq> []"
    using items(2) \<open>date_filter B Ge (map_of q ''fromDate'') = []\<close>
    by (simp add: expression_names_empty search_conditions_def)
qed

text \<open>
  A search with the tags \<open>a,b\<close> returns the record tagged a and not the record
  tagged c.
\<close>

lemma searchRecommendations_tags_a_b:
  "JObj (item_of ((''U1'', 1001), [(''tags'', JArr [JStr ''a'']), (''completed'', JBool False)]))
     \<in> set (returned (fst (searchRecommendations_handler node dev
              (search_request [(''tags'', ''a,b'')]) (world_with tagged_records))))
   \<and> JObj (item_of ((''U1'', 1002), [(''tags'', JArr [JStr ''c'']), (''completed'', JBool False)]))
     \<notin> set (returned (fst (searchRecommendations_handler node dev
              (search_request [(''tags'', ''a,b'')]) (world_with tagged_records))))"
  by (simp add: searchRecommendations_handler_def searchRecommendations_try_def Let_def
        search_request_def query_params_def date_filter_def feedbackType_filter_def
        completed_filter_def tags_filter_def tagArray_a_b expression_names_def
        ddb_query_def ddb_send_def ddb_call_def first_page_def world_with_def tagged_records_def
        item_of_def contains_def returned_def key_text_ok_def)

text \<open>
  Claim C7 at a search with a date bound, and at a search with no filter. The
  owner \<open>U1\<close> has three records, submitted 1001 to 1003 milliseconds after the
  epoch. A search from the date of the epoch on should return them; the handler
  sends the bound as a filter expression on \<open>timestamp\<close>, the sort key of the
  table, the store rejects the query, and the answer is 500 with no record. A search
  with no parameter should return them as well; the handler sends the empty object
  as \<open>ExpressionAttributeNames\<close>, the store rejects the query, and the answer
  is 500.
\<close>

theorem searchRecommendations_date_bound_fails:
  "Date_getTime since_epoch ''1970-01-01T00:00:00.000Z'' = Some 0
   \<and> map (\<lambda>r. submitted_at (item_of r)) (owner_rows ''U1'' (world_with tagged_records)) =
       [Some 1001, Some 1002, Some 1003]
   \<and> statusCode (fst (searchRecommendations_handler since_epoch dev
        (search_request [(''fromDate'', ''1970-01-01T00:00:00.000Z'')])
        (world_with tagged_records))) = 500
   \<and> returned (fst (searchRecommendations_handler since_epoch dev
        (search_request [(''fromDate'', ''1970-01-01T00:00:00.000Z'')])
        (world_with tagged_records))) = []
   \<and> statusCode (fst (searchRecommendations_handler since_epoch dev
        (search_request []) (world_with tagged_records))) = 500
   \<and> returned (fst (searchRecommendations_handler since_epoch dev
        (search_request []) (world_with tagged_records))) = []"
  by (simp add: searchRecommendations_handler_def searchRecommendations_try_def Let_def
        search_request_def query_params_def date_filter_def feedbackType_filter_def
        completed_filter_def tags_filter_def expression_names_def since_epoch_def
        ddb_query_def ddb_send_def ddb_call_def world_with_def tagged_records_def owner_rows_def
        item_of_def submitted_at_def returned_def internal_error_def dev_def
        key_text_ok_def)

text \<open>
  Claim C9. The answer of a search does not depend on the query parameter
  \<open>priority\<close>: two requests of the same caller whose query parameters agree
  on every name but \<open>priority\<close> get the same response (records, count and
  echo of the filters) and leave the same world.
\<close>

theorem searchRecommendations_ignores_priority:
  assumes "sub ev1 = sub ev2"
    and "\<forall>name. name \<noteq> ''priority'' \<longrightarrow>
           map_of (query_params ev1) name = map_of (query_params ev2) name"
  shows "searchRecommendations_handler B cfg ev1 w = searchRecommendations_handler B cfg ev2 w"
proof -
  have eqs: "map_of (query_params ev1) ''search'' = map_of (query_params ev2) ''search''"
    "map_of (query_params ev1) ''tags'' = map_of (query_params ev2) ''tags''"
    "map_of (query_params ev1) ''completed'' = map_of (query_params ev2) ''completed''"
    "map_of (query_params ev1) ''feedbackType'' = map_of (query_params ev2) ''feedbackType''"
    "map_of (query_params ev1) ''fromDate'' = map_of (query_params ev2) ''fromDate''"
    "map_of (query_params ev1) ''toDate'' = map_of (query_params ev2) ''toDate''"
    using assms(2) by simp_all
  show ?thesis
    unfolding searchRecommendations_handler_def searchRecommendations_try_def Let_def
      eqs assms(1)
    by (rule refl)
qed

theorem searchRecommendations_ignores_priority_witness:
  "searchRecommendations_handler node dev (search_request [(''tags'', ''a,b'')])
     (world_with tagged_records) =
   searchRecommendations_handler node dev
     (search_request [(''priority'', ''high''), (''tags'', ''a,b'')]) (world_with tagged_records)"
  using searchRecommendations_ignores_priority
          [of "search_request [(''tags'', ''a,b'')]"
              "search_request [(''priority'', ''high''), (''tags'', ''a,b'')]"
              node dev "world_with tagged_records"]
  by (simp add: search_request_def query_params_def)

section \<open>Properties of the enrichment worker\<close>


lemma try_not_array:
  assumes "model_output B w = Some v" and "\<not> isArray v"
  shows "\<exists>e. recommendations_try B cfg feedback_text w = (Inl e, after_invoke cfg feedback_text w)"
  using assms
  by (cases v)
     (auto simp: recommendations_try_def invoke_model_def after_invoke_def model_text_def
        model_output_def split: invoke_reply.splits option.splits sum.splits json.splits)

lemma generate_fallback:
  assumes "to_String B feedback = Inr feedback_text"
    and "recommendations_try B cfg feedback_text w = (Inl e, after_invoke cfg feedback_text w)"
  shows "generateRecommendations B cfg feedback w =
           (Inr [fallback (clock w 0)],
            (after_invoke cfg feedback_text w)\<lparr>clock := (\<lambda>n. clock w (Suc n))\<rparr>)"
  using assms by (simp add: generateRecommendations_def Date_now_def after_invoke_def)

lemma key_text_ok_general: "key_text_ok ''general''"
  by (simp add: key_text_ok_def)

lemma category_stored:
  assumes "case c of
             None \<Rightarrow> True
           | Some category \<Rightarrow> \<not> truthy category \<or> index_key_ok (Some category)"
  shows "index_key_ok (Some (or_else c (JStr ''general'')))"
proof (cases c)
  case None
  then show ?thesis by (simp add: or_else_def key_text_ok_general)
next
  case (Some category)
  with assms show ?thesis by (auto simp: or_else_def key_text_ok_general)
qed

lemma well_formed_parts:
  assumes "well_formed B record userId feedback timestamp"
  obtains snsMessage message feedback_text where
    "JSON_parse B (record_body record) = Some snsMessage" "snsMessage \<noteq> JNull"
    "parse_member B (get_member snsMessage ''Message'') = Inr message" "message \<noteq> JNull"
    "get_member message ''userId'' = Some (JStr userId)" "key_text_ok userId"
    "get_member message ''feedback'' = Some feedback" "truthy feedback"
    "to_String B feedback = Inr feedback_text"
    "case timestamp of
       Some t \<Rightarrow> get_member message ''timestamp'' = Some (JNum t) \<and> t \<noteq> 0 \<and> marshallable (JNum t)
     | None \<Rightarrow> \<not> truthy_opt (get_member message ''timestamp'')"
    "index_key_ok (Some (or_else (get_member message ''feedbackType'') (JStr ''general'')))"
    "marshallable feedback" "marshallable (or_else (get_member message ''tags'') (JArr []))"
proof -
  from assms obtain message where
    im: "inner_message B record = Some message" and m: "message \<noteq> JNull"
    and u: "get_member message ''userId'' = Some (JStr userId)" "key_text_ok userId"
    and f: "get_member message ''feedback'' = Some feedback" "truthy feedback"
    and p: "\<not> raises (to_String B feedback)" "marshallable feedback"
    and t: "case timestamp of
              Some t \<Rightarrow> get_member message ''timestamp'' = Some (JNum t) \<and> t \<noteq> 0
                        \<and> marshallable (JNum t)
            | None \<Rightarrow> \<not> truthy_opt (get_member message ''timestamp'')"
    and c: "case get_member message ''feedbackType'' of
              None \<Rightarrow> True
            | Some category \<Rightarrow> \<not> truthy category \<or> index_key_ok (Some category)"
    and g: "case get_member message ''tags'' of
              None \<Rightarrow> True
            | Some tags \<Rightarrow> marshallable tags"
    unfolding well_formed_def by (cases "inner_message B record") simp_all
  have tags: "marshallable (or_else (get_member message ''tags'') (JArr []))"
    using g by (cases "get_member message ''tags''") (simp_all add: or_else_def)
  from im obtain snsMessage where
    "JSON_parse B (record_body record) = Some snsMessage" "snsMessage \<noteq> JNull"
    "parse_member B (get_member snsMessage ''Message'') = Inr message"
    unfolding inner_message_def by (auto split: option.splits if_splits sum.splits)
  moreover from p(1) obtain feedback_text where "to_String B feedback = Inr feedback_text"
    by (cases "to_String B feedback") simp_all
  ultimately show ?thesis
    using that m u f t category_stored [OF c] p(2) tags by blast
qed

lemma key_time_ok:
  assumes "well_formed B record userId feedback timestamp" and "epoch_clock w"
  shows "marshallable (JNum (key_time timestamp (clock w n)))"
proof (cases timestamp)
  case None
  have "\<bar>clock w n\<bar> \<le> 8640000000000000"
    using assms(2) by (simp add: epoch_clock_def)
  then show ?thesis using None by (simp add: key_time_def)
next
  case (Some t)
  from assms(1) obtain message where
    "case timestamp of
       Some t \<Rightarrow> get_member message ''timestamp'' = Some (JNum t) \<and> t \<noteq> 0 \<and> marshallable (JNum t)
     | None \<Rightarrow> \<not> truthy_opt (get_member message ''timestamp'')"
    by (rule well_formed_parts)
  with Some show ?thesis by (simp add: key_time_def)
qed

lemma fallback_marshallable: "marshallable (JArr [fallback now])"
  by (simp add: fallback_def)

lemma process_try_persists:
  assumes wf: "well_formed B record userId feedback timestamp"
    and gen: "generateRecommendations B cfg feedback w = (Inr recs, w1)"
    and store: "ddb_faults w1 = []"
    and key: "marshallable (JNum (key_time timestamp (clock w1 0)))"
    and sent: "marshallable (JArr recs)"
  shows "\<exists>w' attrs.
           process_try B cfg record res w =
             (Inr (res\<lparr>successful := successful res @ [(messageId record, JStr userId)]\<rparr>), w')
         \<and> table w' = filter (\<lambda>r. fst r \<noteq> (userId, key_time timestamp (clock w1 0))) (table w1) @
                        [((userId, key_time timestamp (clock w1 0)), attrs)]
         \<and> map_of attrs ''recommendations'' = Some (JArr recs)
         \<and> map_of attrs ''completed'' = Some (JBool False)"
proof -
  from wf obtain snsMessage message feedback_text where
    p1: "JSON_parse B (record_body record) = Some snsMessage" "snsMessage \<noteq> JNull"
        "parse_member B (get_member snsMessage ''Message'') = Inr message" "message \<noteq> JNull"
    and u: "get_member message ''userId'' = Some (JStr userId)" "key_text_ok userId"
    and f: "get_member message ''feedback'' = Some feedback" "truthy feedback"
    and t: "case timestamp of
              Some t \<Rightarrow> get_member message ''timestamp'' = Some (JNum t) \<and> t \<noteq> 0
                        \<and> marshallable (JNum t)
            | None \<Rightarrow> \<not> truthy_opt (get_member message ''timestamp'')"
    and c: "index_key_ok (Some (or_else (get_member message ''feedbackType'') (JStr ''general'')))"
    and m: "marshallable feedback" "marshallable (or_else (get_member message ''tags'') (JArr []))"
    by (rule well_formed_parts)
  have ne: "userId \<noteq> []"
    using u(2) by (auto simp: key_text_ok_def)
  have cm: "marshallable (or_else (get_member message ''feedbackType'') (JStr ''general''))"
    using c by (cases "or_else (get_member message ''feedbackType'') (JStr ''general'')") simp_all
  note sent' = sent [simplified]
  show ?thesis
  proof (cases timestamp)
    case None
    with t have "\<not> truthy_opt (get_member message ''timestamp'')" by simp
    moreover have "\<bar>clock w1 0\<bar> \<le> 9007199254740991"
      using key None by (simp add: key_time_def)
    ultimately show ?thesis
      using p1 u ne f c gen store None m cm sent'
      by (simp add: process_try_def Let_def Date_now_def ddb_put_def ddb_send_def ddb_call_def
            non_key_def key_time_def)
  next
    case (Some t')
    with t have "get_member message ''timestamp'' = Some (JNum t')" "t' \<noteq> 0"
      "\<bar>t'\<bar> \<le> 9007199254740991" by simp_all
    then show ?thesis
      using p1 u ne f c gen store Some m cm sent'
      by (simp add: process_try_def Let_def Date_now_def ddb_put_def ddb_send_def ddb_call_def
            non_key_def key_time_def)
  qed
qed

lemma map_of_replaced: "map_of (filter (\<lambda>r. fst r \<noteq> k) rows @ [(k, v)]) k = Some v"
  by (induction rows) auto

lemma stored_after_put:
  assumes "table w = filter (\<lambda>r. fst r \<noteq> k) rows @ [(k, attrs)]"
  shows "stored_recommendations w k = map_of attrs ''recommendations''"
  using assms map_of_replaced [of k rows attrs]
  by (simp add: stored_recommendations_def del: map_of_append)

lemma fallback_persisted:
  assumes wf: "well_formed B record userId feedback timestamp"
    and printed: "to_String B feedback = Inr feedback_text"
    and raised: "recommendations_try B cfg feedback_text w = (Inl e, after_invoke cfg feedback_text w)"
    and store: "ddb_faults w = []"
    and key: "marshallable (JNum (key_time timestamp (clock w 1)))"
  shows "fst (generateRecommendations B cfg feedback w) = Inr [fallback (clock w 0)]
       \<and> (\<exists>w' attrs.
             process_try B cfg record res w =
               (Inr (res\<lparr>successful := successful res @ [(messageId record, JStr userId)]\<rparr>), w')
           \<and> table w' = filter (\<lambda>r. fst r \<noteq> (userId, key_time timestamp (clock w 1))) (table w) @
                          [((userId, key_time timestamp (clock w 1)), attrs)]
           \<and> stored_recommendations w' (userId, key_time timestamp (clock w 1)) =
               Some (JArr [fallback (clock w 0)])
           \<and> map_of attrs ''completed'' = Some (JBool False)
           \<and> process_records B cfg (record # records) res w =
               process_records B cfg records
                 (res\<lparr>successful := successful res @ [(messageId record, JStr userId)]\<rparr>) w')"
proof -
  note gen = generate_fallback [OF printed raised]
  have "ddb_faults ((after_invoke cfg feedback_text w)\<lparr>clock := (\<lambda>n. clock w (Suc n))\<rparr>) = []"
    using store by (simp add: after_invoke_def)
  moreover have "marshallable (JNum (key_time timestamp
           (clock ((after_invoke cfg feedback_text w)\<lparr>clock := (\<lambda>n. clock w (Suc n))\<rparr>) 0)))"
    using key by simp
  ultimately obtain w' attrs where
    p: "process_try B cfg record res w =
       (Inr (res\<lparr>successful := successful res @ [(messageId record, JStr userId)]\<rparr>), w')"
    and t: "table w' = filter (\<lambda>r. fst r \<noteq> (userId, key_time timestamp (clock w 1))) (table w) @
                        [((userId, key_time timestamp (clock w 1)), attrs)]"
    and r: "map_of attrs ''recommendations'' = Some (JArr [fallback (clock w 0)])"
    and c: "map_of attrs ''completed'' = Some (JBool False)"
    using process_try_persists [OF wf gen _ _ fallback_marshallable, of res]
    by (auto simp: after_invoke_def)
  from stored_after_put [OF t] r
  have "stored_recommendations w' (userId, key_time timestamp (clock w 1)) =
          Some (JArr [fallback (clock w 0)])" by simp
  with p t c show ?thesis
    using gen by auto
qed

lemma parse_known:
  assumes "distinct (map stringify docs)" and "d \<in> set docs"
  shows "JSON_parse (parsing docs) (stringify d) = Some d"
proof -
  have "map_of (map (\<lambda>d. (stringify d, d)) docs) (stringify d) = Some d"
    using assms
    by (intro map_of_is_SomeI) (auto simp: comp_def)
  then show ?thesis by (simp add: parsing_def)
qed

lemma worker_docs_distinct: "distinct (map stringify worker_docs)"
  by (simp add: worker_docs_def submission_def notification_def raw_notification_def advice_def
        stray_def model_body_def quote_def show_int_def show_nat.simps)

lemma not_json: "JSON_parse (parsing worker_docs) ''not json'' = None"
  by (simp add: parsing_def worker_docs_def map_of_eq_None_iff image_iff comp_def
        notification_def raw_notification_def submission_def advice_def stray_def model_body_def)

lemma try_array:
  assumes "model_output B w = Some (JArr recs)"
  shows "recommendations_try B cfg feedback_text w = sanitize_all B recs 0 (after_invoke cfg feedback_text w)"
  using assms
  by (auto simp: recommendations_try_def invoke_model_def after_invoke_def model_text_def
        model_output_def split: invoke_reply.splits option.splits sum.splits json.splits)

lemma process_try_world:
  assumes wf: "well_formed B record userId feedback (Some timestamp)"
    and gen: "generateRecommendations B cfg feedback w = (Inr recs, w1)"
    and store: "ddb_faults w1 = []"
    and sent: "marshallable (JArr recs)"
  shows "\<exists>w' attrs.
           process_try B cfg record res w =
             (Inr (res\<lparr>successful := successful res @ [(messageId record, JStr userId)]\<rparr>), w')
         \<and> table w' = filter (\<lambda>r. fst r \<noteq> (userId, timestamp)) (table w1) @
                        [((userId, timestamp), attrs)]
         \<and> map_of attrs ''recommendations'' = Some (JArr recs)
         \<and> ddb_faults w' = []
         \<and> bedrock_replies w' = bedrock_replies w1
         \<and> clock w' = (\<lambda>n. clock w1 (Suc (Suc n)))"
proof -
  from wf obtain snsMessage message feedback_text where
    p1: "JSON_parse B (record_body record) = Some snsMessage" "snsMessage \<noteq> JNull"
        "parse_member B (get_member snsMessage ''Message'') = Inr message" "message \<noteq> JNull"
    and u: "get_member message ''userId'' = Some (JStr userId)" "key_text_ok userId"
    and f: "get_member message ''feedback'' = Some feedback" "truthy feedback"
    and t: "case Some timestamp of
              Some t \<Rightarrow> get_member message ''timestamp'' = Some (JNum t) \<and> t \<noteq> 0
                        \<and> marshallable (JNum t)
            | None \<Rightarrow> \<not> truthy_opt (get_member message ''timestamp'')"
    and c: "index_key_ok (Some (or_else (get_member message ''feedbackType'') (JStr ''general'')))"
    and m: "marshallable feedback" "marshallable (or_else (get_member message ''tags'') (JArr []))"
    by (rule well_formed_parts)
  from t have "get_member message ''timestamp'' = Some (JNum timestamp)" "timestamp \<noteq> 0"
    "\<bar>timestamp\<bar> \<le> 9007199254740991"
    by simp_all
  moreover have "userId \<noteq> []"
    using u(2) by (auto simp: key_text_ok_def)
  moreover have "marshallable (or_else (get_member message ''feedbackType'') (JStr ''general''))"
    using c by (cases "or_else (get_member message ''feedbackType'') (JStr ''general'')") simp_all
  ultimately show ?thesis
    using p1 u f c gen store m sent [simplified]
    by (simp add: process_try_def Let_def Date_now_def ddb_put_def ddb_send_def ddb_call_def
          non_key_def)
qed

lemma in_worker_docs:
  "submission ''U1'' 1001 \<in> set worker_docs" "submission ''U2'' 1002 \<in> set worker_docs"
  "submission ''U3'' 1003 \<in> set worker_docs"
  "notification (submission ''U1'' 1001) \<in> set worker_docs"
  "notification (submission ''U2'' 1002) \<in> set worker_docs"
  "notification (submission ''U3'' 1003) \<in> set worker_docs"
  "advice \<in> set worker_docs" "stray \<in> set worker_docs"
  "model_body advice \<in> set worker_docs" "model_body stray \<in> set worker_docs"
  "JObj [(''userId'', JStr ''U4'')] \<in> set worker_docs"
  "notification (JObj [(''userId'', JStr ''U4'')]) \<in> set worker_docs"
  "raw_notification ''not json'' \<in> set worker_docs"
  by (simp_all add: worker_docs_def)

lemmas worker_parse = in_worker_docs [THEN parse_known [OF worker_docs_distinct]]

lemma inner_message_delivery:
  assumes "JSON_parse B (stringify (notification message)) = Some (notification message)"
  shows "inner_message B (delivery mid message) = JSON_parse B (stringify message)"
  using assms
  by (simp add: inner_message_def delivery_def parse_member_def
        del: stringify.simps)
     (simp add: notification_def raw_notification_def split: option.splits)

lemma well_formed_delivery:
  assumes "JSON_parse B (stringify (notification (submission owner t))) =
             Some (notification (submission owner t))"
    and "JSON_parse B (stringify (submission owner t)) = Some (submission owner t)"
    and "key_ok owner t" and "t \<noteq> 0"
  shows "well_formed B (delivery mid (submission owner t)) owner (JStr ''Response times are slow'')
           (Some t)"
  using assms(2-)
  by (simp add: well_formed_def inner_message_delivery [OF assms(1)] del: stringify.simps)
     (simp add: submission_def key_ok_def key_text_ok_general or_else_def)

lemma model_text_advice: "model_text (stringify advice) = stringify advice"
  by (simp add: model_text_def advice_def quote_def trim_def is_space_def)

lemma model_text_stray: "model_text (stringify stray) = stringify stray"
  by (simp add: model_text_def stray_def quote_def trim_def is_space_def)

lemma response_text_model_body:
  assumes "stringify v \<noteq> []"
  shows "response_text (model_body v) = Inr (JStr (stringify v))"
  using assms by (simp add: response_text_def model_body_def chain_def or_else_def)

lemma model_output_known:
  assumes "bedrock_replies w 0 = InvokeBody (stringify (model_body v))"
    and "JSON_parse B (stringify (model_body v)) = Some (model_body v)"
    and "JSON_parse B (stringify v) = Some v"
    and "model_text (stringify v) = stringify v"
    and "stringify v \<noteq> []"
  shows "model_output B w = Some v"
  using assms
  by (simp add: model_output_def response_text_model_body del: stringify.simps)

lemma advice_not_empty: "stringify advice \<noteq> []"
  by (simp add: advice_def)

lemma stray_not_empty: "stringify stray \<noteq> []"
  by (simp add: stray_def)

lemma wf_third:
  "well_formed (parsing worker_docs) (delivery ''m3'' (submission ''U3'' 1003)) ''U3''
     (JStr ''Response times are slow'') (Some 1003)"
  by (rule well_formed_delivery;
      simp add: worker_parse key_ok_def key_text_ok_def del: stringify.simps)

lemma model_output_stray:
  assumes "bedrock_replies w 0 = InvokeBody (stringify (model_body stray))"
  shows "model_output (parsing worker_docs) w = Some stray"
  by (rule model_output_known [OF assms worker_parse(10) worker_parse(8) model_text_stray
        stray_not_empty])


lemma inner_message_unparsable: "inner_message (parsing worker_docs) unparsable = None"
  using worker_parse(13) not_json
  by (simp add: inner_message_def unparsable_def parse_member_def del: stringify.simps)
     (simp add: raw_notification_def)

text \<open>
  Claim C1, as stated, fails: in a batch of three well-formed messages where the
  model's answer for the third is an object and not an array, the handler does not
  raise; it returns the three messages as successful, and the record stored for the
  third message carries the fallback recommendation.
\<close>

theorem processFeedback_non_array_is_absorbed:
  "bedrock_replies worker_world 2 = InvokeBody (stringify (model_body stray))
   \<and> \<not> isArray stray
   \<and> fst (processFeedback_handler (parsing worker_docs) dev three_messages worker_world) =
       Inr \<lparr>successful = [(''m1'', JStr ''U1''), (''m2'', JStr ''U2''), (''m3'', JStr ''U3'')],
            failed = []\<rparr>
   \<and> stored_recommendations
        (snd (processFeedback_handler (parsing worker_docs) dev three_messages worker_world))
        (''U3'', 1003) = Some (JArr [fallback 86400000])"
proof -
  let ?B = "parsing worker_docs"
  let ?fb = "JStr ''Response times are slow''"
  let ?feedback_text = "''Response times are slow''"
  let ?res0 = "\<lparr>successful = [], failed = []\<rparr>"
  have wf1: "well_formed ?B (delivery ''m1'' (submission ''U1'' 1001)) ''U1'' ?fb (Some 1001)"
    and wf2: "well_formed ?B (delivery ''m2'' (submission ''U2'' 1002)) ''U2'' ?fb (Some 1002)"
    and wf3: "well_formed ?B (delivery ''m3'' (submission ''U3'' 1003)) ''U3'' ?fb (Some 1003)"
    by (rule well_formed_delivery;
        simp add: worker_parse key_ok_def key_text_ok_def del: stringify.simps)+
  have w0: "bedrock_replies worker_world =
              (\<lambda>n. if n < 2 then InvokeBody (stringify (model_body advice))
                   else InvokeBody (stringify (model_body stray)))"
       "clock worker_world = (\<lambda>n. 86400000)" "ddb_faults worker_world = []"
    by (simp_all add: worker_world_def world_with_def)
  have out_advice: "model_output ?B w = Some advice"
    if "bedrock_replies w 0 = InvokeBody (stringify (model_body advice))" for w
    by (rule model_output_known [OF that worker_parse(9) worker_parse(7) model_text_advice
          advice_not_empty])
  have out_stray: "model_output ?B w = Some stray"
    if "bedrock_replies w 0 = InvokeBody (stringify (model_body stray))" for w
    by (rule model_output_known [OF that worker_parse(10) worker_parse(8) model_text_stray
          stray_not_empty])
  have gen_advice: "\<exists>recs w1. generateRecommendations ?B dev ?fb w = (Inr recs, w1)
                      \<and> marshallable (JArr recs)
                      \<and> ddb_faults w1 = ddb_faults w \<and> table w1 = table w
                      \<and> bedrock_replies w1 = (\<lambda>n. bedrock_replies w (Suc n))
                      \<and> clock w1 = (\<lambda>n. clock w (Suc n))"
    if "bedrock_replies w 0 = InvokeBody (stringify (model_body advice))" for w
    using try_array [OF out_advice [OF that, unfolded advice_def], of dev ?feedback_text]
    by (simp add: generateRecommendations_def Date_now_def after_invoke_def sanitize_def
          or_else_def)
  \<comment> \<open>message 1\<close>
  from gen_advice [of worker_world] w0 obtain recs1 v1 where
    g1: "generateRecommendations ?B dev ?fb worker_world = (Inr recs1, v1)"
    and m1: "marshallable (JArr recs1)"
    and v1: "ddb_faults v1 = []" "table v1 = table worker_world"
      "bedrock_replies v1 = (\<lambda>n. bedrock_replies worker_world (Suc n))"
      "clock v1 = (\<lambda>n. clock worker_world (Suc n))"
    by auto
  from process_try_world [OF wf1 g1 v1(1) m1, of ?res0] obtain w1 attrs1 where
    p1: "process_try ?B dev (delivery ''m1'' (submission ''U1'' 1001)) ?res0 worker_world =
           (Inr (?res0\<lparr>successful := successful ?res0 @
                   [(messageId (delivery ''m1'' (submission ''U1'' 1001)), JStr ''U1'')]\<rparr>), w1)"
    and w1: "ddb_faults w1 = []" "bedrock_replies w1 = bedrock_replies v1"
      "clock w1 = (\<lambda>n. clock v1 (Suc (Suc n)))"
    by blast
  \<comment> \<open>message 2\<close>
  let ?res1 = "\<lparr>successful = [(''m1'', JStr ''U1'')], failed = []\<rparr>"
  have b1: "bedrock_replies w1 0 = InvokeBody (stringify (model_body advice))"
    by (simp add: w1 v1 w0 del: stringify.simps)
  from gen_advice [OF b1] w1 obtain recs2 v2 where
    g2: "generateRecommendations ?B dev ?fb w1 = (Inr recs2, v2)"
    and m2: "marshallable (JArr recs2)"
    and v2: "ddb_faults v2 = []"
      "bedrock_replies v2 = (\<lambda>n. bedrock_replies w1 (Suc n))"
      "clock v2 = (\<lambda>n. clock w1 (Suc n))"
    by auto
  from process_try_world [OF wf2 g2 v2(1) m2, of ?res1] obtain w2 attrs2 where
    p2: "process_try ?B dev (delivery ''m2'' (submission ''U2'' 1002)) ?res1 w1 =
           (Inr (?res1\<lparr>successful := successful ?res1 @
                   [(messageId (delivery ''m2'' (submission ''U2'' 1002)), JStr ''U2'')]\<rparr>), w2)"
    and w2: "ddb_faults w2 = []" "bedrock_replies w2 = bedrock_replies v2"
      "clock w2 = (\<lambda>n. clock v2 (Suc (Suc n)))"
    by blast
  \<comment> \<open>message 3\<close>
  let ?res2 = "\<lparr>successful = [(''m1'', JStr ''U1''), (''m2'', JStr ''U2'')], failed = []\<rparr>"
  have b2: "bedrock_replies w2 0 = InvokeBody (stringify (model_body stray))"
    by (simp add: w2 v2 w1 v1 w0 del: stringify.simps)
  have c2: "clock w2 0 = 86400000"
    by (simp add: w2 v2 w1 v1 w0)
  have "\<not> isArray stray" by (simp add: stray_def)
  from try_not_array [OF out_stray [OF b2] this, of dev ?feedback_text] obtain e where
    raised3: "recommendations_try ?B dev ?feedback_text w2 = (Inl e, after_invoke dev ?feedback_text w2)"
    by blast
  have key3: "marshallable (JNum (key_time (Some 1003) (clock w2 1)))"
    by (simp add: key_time_def)
  have printed3: "to_String ?B ?fb = Inr ?feedback_text"
    by simp
  from fallback_persisted [OF wf3 printed3 raised3 w2(1) key3, of ?res2 "[]"]
  obtain w3 attrs3 where
    p3: "process_try ?B dev (delivery ''m3'' (submission ''U3'' 1003)) ?res2 w2 =
           (Inr (?res2\<lparr>successful := successful ?res2 @
                   [(messageId (delivery ''m3'' (submission ''U3'' 1003)), JStr ''U3'')]\<rparr>), w3)"
    and r3: "stored_recommendations w3 (''U3'', 1003) = Some (JArr [fallback (clock w2 0)])"
    by (auto simp: key_time_def)
  have run: "processFeedback_handler ?B dev three_messages worker_world =
          (Inr \<lparr>successful = [(''m1'', JStr ''U1''), (''m2'', JStr ''U2''), (''m3'', JStr ''U3'')],
                failed = []\<rparr>, w3)"
    using p1 p2 p3
    by (simp add: processFeedback_handler_def three_messages_def delivery_def
          del: stringify.simps)
  show ?thesis
    using r3 c2 \<open>\<not> isArray stray\<close>
    by (simp add: run w0)
qed

text \<open>
  Claim C1, amended. For a well-formed message (see \<open>well_formed\<close>) whose
  model answer parses to a document that is not an array, the error is caught inside
  \<open>generateRecommendations\<close>, which returns the single fallback
  recommendation; with a store that answers, the record is persisted under the owner
  and the timestamp of the message (the current time when it has none) with exactly
  the fallback as its recommendations and \<open>completed = false\<close>, the message is
  counted successful, and the loop goes on with the next message of the batch. (The
  clock shows time values.)
\<close>

theorem processFeedback_non_array_falls_back:
  assumes "well_formed B record userId feedback timestamp"
    and "model_output B w = Some v" and "\<not> isArray v"
    and "ddb_faults w = []" and "epoch_clock w"
  shows "fst (generateRecommendations B cfg feedback w) = Inr [fallback (clock w 0)]
       \<and> (\<exists>w' attrs.
             process_try B cfg record res w =
               (Inr (res\<lparr>successful := successful res @ [(messageId record, JStr userId)]\<rparr>), w')
           \<and> table w' = filter (\<lambda>r. fst r \<noteq> (userId, key_time timestamp (clock w 1))) (table w) @
                          [((userId, key_time timestamp (clock w 1)), attrs)]
           \<and> stored_recommendations w' (userId, key_time timestamp (clock w 1)) =
               Some (JArr [fallback (clock w 0)])
           \<and> map_of attrs ''completed'' = Some (JBool False)
           \<and> process_records B cfg (record # records) res w =
               process_records B cfg records
                 (res\<lparr>successful := successful res @ [(messageId record, JStr userId)]\<rparr>) w')"
proof -
  from assms(1) obtain feedback_text where printed: "to_String B feedback = Inr feedback_text"
    by (rule well_formed_parts)
  from try_not_array [OF assms(2,3)] obtain e where
    "recommendations_try B cfg feedback_text w = (Inl e, after_invoke cfg feedback_text w)" by blast
  from fallback_persisted [OF assms(1) printed this assms(4) key_time_ok [OF assms(1,5)]]
  show ?thesis .
qed

theorem processFeedback_non_array_falls_back_witness:
  "fst (generateRecommendations (parsing worker_docs) dev (JStr ''Response times are slow'')
          stray_world) = Inr [fallback 86400000]
   \<and> (\<exists>w' attrs.
         process_try (parsing worker_docs) dev (delivery ''m3'' (submission ''U3'' 1003))
            \<lparr>successful = [], failed = []\<rparr> stray_world =
           (Inr \<lparr>successful = [(''m3'', JStr ''U3'')], failed = []\<rparr>, w')
       \<and> table w' = [((''U3'', 1003), attrs)]
       \<and> stored_recommendations w' (''U3'', 1003) = Some (JArr [fallback 86400000])
       \<and> map_of attrs ''completed'' = Some (JBool False)
       \<and> process_records (parsing worker_docs) dev [delivery ''m3'' (submission ''U3'' 1003)]
            \<lparr>successful = [], failed = []\<rparr> stray_world =
           (Inr \<lparr>successful = [(''m3'', JStr ''U3'')], failed = []\<rparr>, w'))"
proof -
  have b: "bedrock_replies stray_world 0 = InvokeBody (stringify (model_body stray))"
    and f: "ddb_faults stray_world = []"
    and c: "clock stray_world 0 = 86400000" and t: "table stray_world = []"
    and k: "epoch_clock stray_world"
    by (simp_all add: stray_world_def world_with_def epoch_clock_def)
  have n: "\<not> isArray stray" by (simp add: stray_def)
  show ?thesis
    using processFeedback_non_array_falls_back
            [OF wf_third model_output_stray [OF b] n f k, of dev "\<lparr>successful = [], failed = []\<rparr>" "[]"]
    by (simp add: c t key_time_def delivery_def del: stringify.simps)
qed

text \<open>
  Claim C2, as stated, fails: a delivery whose payload is no JSON makes the handler
  raise a SyntaxError; the message that follows it in the batch is not processed and
  the world is as before.
\<close>

theorem processFeedback_unparsable_payload_raises:
  "JSON_parse (parsing worker_docs) ''not json'' = None
   \<and> get_member (raw_notification ''not json'') ''Message'' = Some (JStr ''not json'')
   \<and> processFeedback_handler (parsing worker_docs) dev
        [unparsable, delivery ''m1'' (submission ''U1'' 1001)] (world_with []) =
       (Inl SyntaxError, world_with [])"
proof -
  have "process_try (parsing worker_docs) dev unparsable \<lparr>successful = [], failed = []\<rparr>
          (world_with []) = (Inl SyntaxError, world_with [])"
    using worker_parse(13) not_json
    by (simp add: process_try_def unparsable_def parse_member_def del: stringify.simps)
       (simp add: raw_notification_def)
  then show ?thesis
    using not_json by (simp add: processFeedback_handler_def raw_notification_def)
qed

text \<open>
  Claim C2, amended. A message whose envelopes parse and whose owner or feedback is
  absent (or falsy) is recorded as failed with \<open>Invalid message format\<close>,
  nothing is raised, the world is untouched and the loop goes on with the next
  message. A message whose transport envelope or payload does not parse (or is
  \<open>null\<close>) is not absorbed: the handler raises, with the world untouched.
\<close>

theorem processFeedback_malformed_message:
  "(\<forall>message. inner_message B record = Some message \<and> message \<noteq> JNull
       \<and> (\<not> truthy_opt (get_member message ''userId'')
           \<or> \<not> truthy_opt (get_member message ''feedback'')) \<longrightarrow>
       process_records B cfg (record # records) res w =
         process_records B cfg records
           (res\<lparr>failed := failed res @ [(messageId record, ''Invalid message format'')]\<rparr>) w)
   \<and> (inner_message B record = None \<or> inner_message B record = Some JNull \<longrightarrow>
       (\<exists>e. process_records B cfg (record # records) res w = (Inl e, w)))"
  by (auto simp: inner_message_def process_try_def Let_def
      split: option.splits if_splits sum.splits)

theorem processFeedback_malformed_message_witness:
  "process_records (parsing worker_docs) dev [delivery ''m4'' (JObj [(''userId'', JStr ''U4'')])]
      \<lparr>successful = [], failed = []\<rparr> (world_with []) =
     (Inr \<lparr>successful = [], failed = [(''m4'', ''Invalid message format'')]\<rparr>, world_with [])
   \<and> (\<exists>e. process_records (parsing worker_docs) dev
              [unparsable, delivery ''m1'' (submission ''U1'' 1001)]
              \<lparr>successful = [], failed = []\<rparr> (world_with []) = (Inl e, world_with []))"
proof -
  have m: "inner_message (parsing worker_docs) (delivery ''m4'' (JObj [(''userId'', JStr ''U4'')])) =
             Some (JObj [(''userId'', JStr ''U4'')])"
    using inner_message_delivery [OF worker_parse(12), of "''m4''"] worker_parse(11) by simp
  have a: "process_records (parsing worker_docs) dev [delivery ''m4'' (JObj [(''userId'', JStr ''U4'')])]
      \<lparr>successful = [], failed = []\<rparr> (world_with []) =
     (Inr \<lparr>successful = [], failed = [(''m4'', ''Invalid message format'')]\<rparr>, world_with [])"
    using processFeedback_malformed_message
            [of "parsing worker_docs" "delivery ''m4'' (JObj [(''userId'', JStr ''U4'')])"
                dev "[]" "\<lparr>successful = [], failed = []\<rparr>" "world_with []"] m
    by (simp add: delivery_def del: stringify.simps)
  have b: "\<exists>e. process_records (parsing worker_docs) dev
              [unparsable, delivery ''m1'' (submission ''U1'' 1001)]
              \<lparr>successful = [], failed = []\<rparr> (world_with []) = (Inl e, world_with [])"
    using processFeedback_malformed_message
            [of "parsing worker_docs" unparsable dev "[delivery ''m1'' (submission ''U1'' 1001)]"
                "\<lparr>successful = [], failed = []\<rparr>" "world_with []"] inner_message_unparsable
    by simp
  from a b show ?thesis by simp
qed

lemma sanitize_raises: "raises (sanitize B now i rec) = raises (sanitize B 0 0 rec)"
  by (simp add: sanitize_def split: sum.splits)



lemma sanitize_all_total:
  "\<forall>rec \<in> set recs. rec \<noteq> JNull \<and> \<not> raises (sanitize B 0 0 rec) \<Longrightarrow>
     \<exists>out w'. sanitize_all B recs i w = (Inr out, w') \<and> length out = length recs"
proof (induction recs arbitrary: i w)
  case Nil
  then show ?case by simp
next
  case (Cons r recs)
  then have rest: "\<forall>rec \<in> set recs. rec \<noteq> JNull \<and> \<not> raises (sanitize B 0 0 rec)"
    and r: "r \<noteq> JNull" "\<not> raises (sanitize B 0 0 r)" by auto
  from r(2) obtain item where "sanitize B (clock w 0) i r = Inr item"
    using sanitize_raises [of B "clock w 0" i r]
    by (cases "sanitize B (clock w 0) i r") auto
  with Cons.IH [OF rest, of "Suc i" "w\<lparr>clock := (\<lambda>n. clock w (Suc n))\<rparr>"] r(1)
  show ?case by (auto simp: Date_now_def)
qed



lemma inference_succeeds:
  assumes "\<not> inference_fails B w"
  shows "\<exists>out. fst (recommendations_try B cfg feedback_text w) = Inr out"
proof -
  from assms obtain recs where m: "model_output B w = Some (JArr recs)"
    and n: "\<forall>rec \<in> set recs. rec \<noteq> JNull \<and> \<not> raises (sanitize B 0 0 rec)"
    by (auto simp: inference_fails_def split: option.splits json.splits)
  from sanitize_all_total [OF n, of 0 "after_invoke cfg feedback_text w"]
  show ?thesis using try_array [OF m, of cfg feedback_text] by auto
qed





text \<open>
  Two messages that are not well-formed in the sense above. A submission whose
  category is a number is enriched, but the store refuses the record (the category is
  the key of its index): the handler raises and nothing is stored. A submission whose
  feedback cannot be put into the prompt makes \<open>generateRecommendations\<close> throw
  before its \<open>try\<close> block: the handler raises and the model is not called.
\<close>

lemma odd_docs_distinct: "distinct (map stringify odd_docs)"
  by (simp add: odd_docs_def numbered_category_def object_feedback_def notification_def
        raw_notification_def quote_def show_int_def show_nat.simps)

lemma odd_parse:
  "JSON_parse (parsing odd_docs) (stringify numbered_category) = Some numbered_category"
  "JSON_parse (parsing odd_docs) (stringify (notification numbered_category)) =
     Some (notification numbered_category)"
  "JSON_parse (parsing odd_docs) (stringify object_feedback) = Some object_feedback"
  "JSON_parse (parsing odd_docs) (stringify (notification object_feedback)) =
     Some (notification object_feedback)"
  by (rule parse_known [OF odd_docs_distinct], simp add: odd_docs_def)+

lemma processFeedback_category_number_raises:
  "fst (processFeedback_handler (parsing odd_docs) dev [delivery ''m5'' numbered_category]
          (world_with [])) = Inl (SdkError ''ValidationException'')
   \<and> table (snd (processFeedback_handler (parsing odd_docs) dev
          [delivery ''m5'' numbered_category] (world_with []))) = []"
proof -
  have m: "parse_member (parsing odd_docs) (get_member (notification numbered_category) ''Message'') =
             Inr numbered_category"
    using odd_parse(1)
    by (simp add: parse_member_def notification_def raw_notification_def del: stringify.simps)
  have n: "notification numbered_category \<noteq> JNull" "numbered_category \<noteq> JNull"
    by (simp_all add: notification_def raw_notification_def numbered_category_def)
  have f: "marshallable (fallback now)" for now
    by (simp add: fallback_def)
  show ?thesis
    using odd_parse(2) m n
    by (simp add: processFeedback_handler_def process_try_def delivery_def Let_def
          del: stringify.simps)
       (simp add: numbered_category_def generateRecommendations_def recommendations_try_def
          invoke_model_def world_with_def Date_now_def ddb_put_def ddb_send_def ddb_call_def
          or_else_def key_ok_def key_text_ok_def Let_def f)
qed

lemma processFeedback_object_feedback_raises:
  "processFeedback_handler (parsing odd_docs) dev [delivery ''m6'' object_feedback]
          (world_with []) = (Inl TypeError, world_with [])"
proof -
  have m: "parse_member (parsing odd_docs) (get_member (notification object_feedback) ''Message'') =
             Inr object_feedback"
    using odd_parse(3)
    by (simp add: parse_member_def notification_def raw_notification_def del: stringify.simps)
  have n: "notification object_feedback \<noteq> JNull" "object_feedback \<noteq> JNull"
    by (simp_all add: notification_def raw_notification_def object_feedback_def)
  show ?thesis
    using odd_parse(4) m n
    by (simp add: processFeedback_handler_def process_try_def delivery_def Let_def
          del: stringify.simps)
       (simp add: object_feedback_def generateRecommendations_def)
qed

end
